theory Spec2Isabelle
  imports Main
begin

section \<open>The theme hook of the portfolio site (src/hooks/useTheme.ts)\<close>

text \<open>
  The hook \<^verbatim>\<open>useTheme\<close> keeps one piece of React state, \<^verbatim>\<open>theme\<close>, and talks to four
  browser facilities: \<^verbatim>\<open>localStorage\<close>, the media query
  \<^verbatim>\<open>(prefers-color-scheme: dark)\<close>, the document (root element, theme-color meta element,
  body) and the timer queue. The embedding is a state-passing one: a record \<open>world\<close> holds
  the state of one hook instance together with the part of the browser it reads and writes,
  and every function of the source is a function on that record. A call that can throw
  returns the exception (if any) beside the world it leaves behind, because JavaScript keeps
  the effects that happened before a throw.
\<close>

subsection \<open>Values\<close>

text \<open>
  What the code can throw: the three errors of the browser it meets, a storage that refuses,
  and whatever the \<^verbatim>\<open>toString\<close> of a caller's object throws.
\<close>

datatype exn = ReferenceError | TypeError | NotFoundError | StorageError | Thrown string

text \<open>
  TypeScript's \<^verbatim>\<open>Theme\<close> is the union \<^verbatim>\<open>'light' | 'dark'\<close>, but it is erased at run time:
  \<^verbatim>\<open>setTheme\<close> checks its argument itself, and \<^verbatim>\<open>localStorage.getItem(...) as Theme\<close> is
  an unchecked cast. So a theme is a JavaScript value here, and validity is proved. The code
  does two things with such a value: it compares it with the two strings, and it converts
  it to a string. A value that is not a string, \<^verbatim>\<open>null\<close> or \<^verbatim>\<open>undefined\<close> is therefore a
  symbol, or any other value (a number, a boolean, an object), given by what its conversion
  to a string does: return a string or throw.
\<close>

datatype js_value = Str string | Null | Undefined | Symbol | Other "exn + string"

text \<open>
  The conversion to a string that a template literal and \<^verbatim>\<open>Storage.setItem\<close> perform: it
  throws a \<^verbatim>\<open>TypeError\<close> for a symbol.
\<close>

fun ToString :: "js_value \<Rightarrow> exn + string" where
  "ToString (Str s) = Inr s"
| "ToString Null = Inr ''null''"
| "ToString Undefined = Inr ''undefined''"
| "ToString Symbol = Inl TypeError"
| "ToString (Other r) = r"

text \<open>
  The string of a value whose conversion returns. The functions of the hook call
  \<open>ToString\<close>; this reading of it serves the statements about valid themes.
\<close>

definition to_string :: "js_value \<Rightarrow> string" where
  "to_string v = (case ToString v of Inr s \<Rightarrow> s | Inl error \<Rightarrow> [])"

text \<open>\<^verbatim>\<open>THEME_CONFIG\<close> of the constants module.\<close>

record theme_config =
  defaultTheme :: js_value
  storageKey :: string
  transitionDuration :: nat

definition THEME_CONFIG :: theme_config where
  "THEME_CONFIG = \<lparr>defaultTheme = Str ''light'', storageKey = ''theme'', transitionDuration = 200\<rparr>"

subsection \<open>The browser and the hook instance\<close>

text \<open>The announcer \<^verbatim>\<open>div\<close> built by \<^verbatim>\<open>announceThemeChange\<close>: its three attributes and its text.\<close>

record element =
  aria_live :: string
  aria_atomic :: string
  className :: string
  textContent :: string

text \<open>The two callbacks the hook hands to \<^verbatim>\<open>setTimeout\<close>.\<close>

datatype timer_callback =
  RemoveTransition
| RemoveAnnouncer nat

text \<open>
  Event targets, and the two handler closures the hook registers. \<^verbatim>\<open>handleKeyDown\<close> calls
  the \<^verbatim>\<open>toggleTheme\<close> of the render that created it, which has captured that render's
  \<^verbatim>\<open>theme\<close>: the captured value is the constructor's argument.
\<close>

datatype target = MediaQueryList | Document | Window

datatype handler =
  HandleChange
| HandleKeyDown js_value

type_synonym listener = "target \<times> string \<times> handler"

text \<open>The cleanup functions the effects return.\<close>

datatype cleanup =
  MediaRemoveEventListener
| MediaRemoveListener
| DocumentRemoveKeyDown js_value
| DetachAnnouncer

text \<open>Observable effects, in the order they happen.\<close>

datatype effect =
  SetThemeState js_value
| SetMounted bool
| SetSystemPrefersDark bool
| StyleSetProperty string string
| StyleRemoveProperty string
| ClassListAdd string
| ClassListRemove string
| SetTimeout timer_callback nat
| MetaSetAttribute string string
| StorageSetItem string string
| ConsoleWarn string
| BodyRemoveChild nat
| BodyAppendChild nat element
| AddListener target string handler
| RemoveListener target string handler
| PreventDefault
| Uncaught exn

record world =
  \<comment> \<open>the hook instance: \<^verbatim>\<open>useState\<close>, \<^verbatim>\<open>useRef\<close> and the cleanups of its effects\<close>
  theme :: js_value
  mounted :: bool
  systemPrefersDark :: bool
  announcerRef :: "nat option"
  toggleTheme_captured :: js_value
  cleanup_system :: "cleanup option"
  cleanup_keyboard :: "cleanup option"
  cleanup_announcer :: "cleanup option"
  \<comment> \<open>the environment\<close>
  window_defined :: bool
  document_defined :: bool
  matchMedia_defined :: bool
  media_matches :: bool
  media_addEventListener :: bool
  media_addListener :: bool
  storage_items :: "string \<rightharpoonup> string"
  storage_get_throws :: bool
  storage_set_throws :: bool
  root_classList :: "string list"
  root_style :: "string \<rightharpoonup> string"
  meta_theme_color :: "string option"
  body_children :: "(nat \<times> element) list"
  next_id :: nat
  timers :: "(timer_callback \<times> nat) list"
  listeners :: "listener list"
  trace :: "effect list"

text \<open>
  \<open>toggleTheme_captured\<close> is the \<^verbatim>\<open>theme\<close> that the \<^verbatim>\<open>toggleTheme\<close> of the latest render has
  captured: the callback a consumer of the hook holds.

  Reading the environment fields:
  \<^item> \<open>window_defined\<close>, \<open>document_defined\<close>: what \<^verbatim>\<open>typeof window\<close> and \<^verbatim>\<open>typeof document\<close>
    test; \<^verbatim>\<open>localStorage\<close> is a property of the window, so without a window naming it
    throws;
  \<^item> \<open>matchMedia_defined\<close>: whether the window has the function \<^verbatim>\<open>matchMedia\<close>; calling it
    where it is missing throws a \<^verbatim>\<open>TypeError\<close>;
  \<^item> \<open>media_matches\<close>: \<^verbatim>\<open>window.matchMedia('(prefers-color-scheme: dark)').matches\<close>;
    \<open>media_addEventListener\<close>, \<open>media_addListener\<close>: whether the media query list has the
    modern and the legacy subscription method;
  \<^item> \<open>storage_items\<close> is the content of \<^verbatim>\<open>localStorage\<close>; \<open>storage_get_throws\<close> and
    \<open>storage_set_throws\<close> say that reading, respectively writing, throws (storage
    disabled, quota exceeded);
  \<^item> \<open>meta_theme_color\<close>: the content of the \<^verbatim>\<open>meta[name="theme-color"]\<close> element,
    \<open>None\<close> when the page has none;
  \<^item> \<open>body_children\<close>: the announcer elements under \<^verbatim>\<open>document.body\<close>, each with the
    identity \<^verbatim>\<open>createElement\<close> gave it; \<open>next_id\<close> is the next fresh identity;
  \<^item> \<open>timers\<close>: the pending \<^verbatim>\<open>setTimeout\<close> callbacks with their delays in milliseconds;
  \<^item> \<open>listeners\<close>: the event listeners this hook instance has registered.
\<close>

subsection \<open>Primitive operations\<close>

definition emit :: "effect \<Rightarrow> world \<Rightarrow> world" where
  "emit e w = w\<lparr>trace := trace w @ [e]\<rparr>"

definition setThemeState :: "js_value \<Rightarrow> world \<Rightarrow> world" where
  "setThemeState v w = emit (SetThemeState v) (w\<lparr>theme := v\<rparr>)"

definition setMounted :: "bool \<Rightarrow> world \<Rightarrow> world" where
  "setMounted b w = emit (SetMounted b) (w\<lparr>mounted := b\<rparr>)"

definition setSystemPrefersDark :: "bool \<Rightarrow> world \<Rightarrow> world" where
  "setSystemPrefersDark b w = emit (SetSystemPrefersDark b) (w\<lparr>systemPrefersDark := b\<rparr>)"

definition console_warn :: "string \<Rightarrow> world \<Rightarrow> world" where
  "console_warn msg w = emit (ConsoleWarn msg) w"

definition style_setProperty :: "string \<Rightarrow> string \<Rightarrow> world \<Rightarrow> world" where
  "style_setProperty p v w = emit (StyleSetProperty p v) (w\<lparr>root_style := (root_style w)(p \<mapsto> v)\<rparr>)"

definition style_removeProperty :: "string \<Rightarrow> world \<Rightarrow> world" where
  "style_removeProperty p w = emit (StyleRemoveProperty p) (w\<lparr>root_style := (root_style w)(p := None)\<rparr>)"

text \<open>A class list holds a token once; \<^verbatim>\<open>add\<close> of a token already there changes nothing.\<close>

definition classList_add :: "string \<Rightarrow> world \<Rightarrow> world" where
  "classList_add c w =
     emit (ClassListAdd c)
       (w\<lparr>root_classList := (if c \<in> set (root_classList w) then root_classList w
                               else root_classList w @ [c])\<rparr>)"

definition classList_remove :: "string \<Rightarrow> world \<Rightarrow> world" where
  "classList_remove c w =
     emit (ClassListRemove c) (w\<lparr>root_classList := removeAll c (root_classList w)\<rparr>)"

definition setTimeout :: "timer_callback \<Rightarrow> nat \<Rightarrow> world \<Rightarrow> world" where
  "setTimeout cb delay w = emit (SetTimeout cb delay) (w\<lparr>timers := timers w @ [(cb, delay)]\<rparr>)"

definition meta_setAttribute :: "string \<Rightarrow> string \<Rightarrow> world \<Rightarrow> world" where
  "meta_setAttribute a v w = emit (MetaSetAttribute a v) (w\<lparr>meta_theme_color := Some v\<rparr>)"

text \<open>
  \<^verbatim>\<open>localStorage.getItem\<close> and \<^verbatim>\<open>localStorage.setItem\<close>. Both throw where the storage is
  not there or refuses; \<^verbatim>\<open>getItem\<close> gives \<^verbatim>\<open>null\<close> (here \<open>None\<close>) for a key without a value.
\<close>

definition localStorage_getItem :: "string \<Rightarrow> world \<Rightarrow> exn + string option" where
  "localStorage_getItem k w =
     (if \<not> window_defined w then Inl ReferenceError
      else if storage_get_throws w then Inl StorageError
      else Inr (storage_items w k))"

definition localStorage_setItem :: "string \<Rightarrow> string \<Rightarrow> world \<Rightarrow> exn option \<times> world" where
  "localStorage_setItem k v w =
     (if \<not> window_defined w then (Some ReferenceError, w)
      else if storage_set_throws w then (Some StorageError, w)
      else (None, emit (StorageSetItem k v) (w\<lparr>storage_items := (storage_items w)(k \<mapsto> v)\<rparr>)))"

text \<open>
  \<^verbatim>\<open>document.body.removeChild\<close> throws a \<^verbatim>\<open>NotFoundError\<close> for a node that is not a child
  of the body.
\<close>

definition body_removeChild :: "nat \<Rightarrow> world \<Rightarrow> exn option \<times> world" where
  "body_removeChild a w =
     (if a \<in> fst ` set (body_children w)
      then (None, emit (BodyRemoveChild a)
                    (w\<lparr>body_children := filter (\<lambda>c. fst c \<noteq> a) (body_children w)\<rparr>))
      else (Some NotFoundError, w))"

definition body_appendChild :: "nat \<Rightarrow> element \<Rightarrow> world \<Rightarrow> world" where
  "body_appendChild a el w =
     emit (BodyAppendChild a el) (w\<lparr>body_children := body_children w @ [(a, el)]\<rparr>)"

text \<open>
  \<^verbatim>\<open>addEventListener\<close> ignores a listener that is registered already; \<^verbatim>\<open>removeEventListener\<close>
  removes the one that is equal. The legacy \<^verbatim>\<open>addListener\<close> and \<^verbatim>\<open>removeListener\<close> of a media
  query list are the same operations for its \<^verbatim>\<open>change\<close> event.
\<close>

definition addEventListener :: "target \<Rightarrow> string \<Rightarrow> handler \<Rightarrow> world \<Rightarrow> world" where
  "addEventListener tg ty h w =
     emit (AddListener tg ty h)
       (w\<lparr>listeners := (if (tg, ty, h) \<in> set (listeners w) then listeners w
                          else listeners w @ [(tg, ty, h)])\<rparr>)"

definition removeEventListener :: "target \<Rightarrow> string \<Rightarrow> handler \<Rightarrow> world \<Rightarrow> world" where
  "removeEventListener tg ty h w =
     emit (RemoveListener tg ty h) (w\<lparr>listeners := removeAll (tg, ty, h) (listeners w)\<rparr>)"

subsection \<open>The functions of the hook\<close>

text \<open>
  \<^verbatim>\<open>detectSystemTheme\<close> (lines 46-52): without a window the configured default; otherwise
  \<^verbatim>\<open>window.matchMedia\<close> is called, with no guard, and the media query is read, remembered
  in \<^verbatim>\<open>systemPrefersDark\<close> and translated.
\<close>

definition detectSystemTheme :: "world \<Rightarrow> (exn + js_value) \<times> world" where
  "detectSystemTheme w =
     (if \<not> window_defined w then (Inr (defaultTheme THEME_CONFIG), w)
      else if \<not> matchMedia_defined w then (Inl TypeError, w)
      else let matches = media_matches w;
               w1 = setSystemPrefersDark matches w
           in (Inr (if matches then Str ''dark'' else Str ''light''), w1))"

text \<open>
  \<^verbatim>\<open>applyTheme\<close> (lines 57-91): nothing without a document; otherwise the transition
  property, the \<^verbatim>\<open>dark\<close> class, the timer that removes the transition, the theme-color meta
  element (when the page has one), and the write to storage inside its \<^verbatim>\<open>try\<close>, which
  also catches what the conversion of the value to a string throws.
\<close>

definition applyTheme :: "js_value \<Rightarrow> world \<Rightarrow> world" where
  "applyTheme newTheme w =
     (if \<not> document_defined w then w
      else let isDark = (newTheme = Str ''dark'');
               w1 = style_setProperty ''--theme-transition'' ''background-color 0.2s ease-in-out'' w;
               w2 = (if isDark then classList_add ''dark'' w1 else classList_remove ''dark'' w1);
               w3 = setTimeout RemoveTransition (transitionDuration THEME_CONFIG) w2;
               w4 = (case meta_theme_color w3 of
                       Some old \<Rightarrow> meta_setAttribute ''content'' (if isDark then ''#18181b'' else ''#ffffff'') w3
                     | None \<Rightarrow> w3)
           in case (case ToString newTheme of
                      Inl error \<Rightarrow> (Some error, w4)
                    | Inr s \<Rightarrow> localStorage_setItem (storageKey THEME_CONFIG) s w4) of
                (None, w5) \<Rightarrow> w5
              | (Some error, w5) \<Rightarrow> console_warn ''Failed to save theme preference:'' w5)"

text \<open>
  \<^verbatim>\<open>announceThemeChange\<close> (lines 96-120). The first statement that runs names
  \<^verbatim>\<open>document\<close> (line 99 when the ref is set, line 103 otherwise), so without a document
  the call throws before it changes anything. The announcer of an earlier call is removed
  from the body, which throws when it is not there. The new element is created, and the
  template literal of its text throws when the value has no string.
\<close>

definition announceThemeChange :: "js_value \<Rightarrow> world \<Rightarrow> exn option \<times> world" where
  "announceThemeChange newTheme w =
     (if \<not> document_defined w then (Some ReferenceError, w)
      else case (case announcerRef w of
                   Some old \<Rightarrow> body_removeChild old w
                 | None \<Rightarrow> (None, w)) of
             (Some error, w1) \<Rightarrow> (Some error, w1)
           | (None, w1) \<Rightarrow>
               let announcer = next_id w1;
                   w2 = w1\<lparr>next_id := Suc announcer\<rparr>
               in case ToString newTheme of
                    Inl error \<Rightarrow> (Some error, w2)
                  | Inr s \<Rightarrow>
                      let el = \<lparr>aria_live = ''polite'', aria_atomic = ''true'', className = ''sr-only'',
                                textContent = ''Theme changed to '' @ s @ '' mode''\<rparr>;
                          w3 = body_appendChild announcer el w2;
                          w4 = w3\<lparr>announcerRef := Some announcer\<rparr>
                      in (None, setTimeout (RemoveAnnouncer announcer) 1000 w4))"

text \<open>
  \<^verbatim>\<open>setTheme\<close> (lines 125-134). The message of the warning is a template literal of the
  argument: where its conversion throws, the call ends there, before the default is taken.
\<close>

definition setTheme :: "js_value \<Rightarrow> world \<Rightarrow> exn option \<times> world" where
  "setTheme requested w =
     (case (if requested \<noteq> Str ''light'' \<and> requested \<noteq> Str ''dark''
            then (case ToString requested of
                    Inl error \<Rightarrow> Inl error
                  | Inr s \<Rightarrow>
                      Inr (defaultTheme THEME_CONFIG,
                           console_warn (''Invalid theme: '' @ s @ ''. Using default theme.'') w))
            else Inr (requested, w)) of
        Inl error \<Rightarrow> (Some error, w)
      | Inr (newTheme, w1) \<Rightarrow>
          let w2 = setThemeState newTheme w1;
              w3 = applyTheme newTheme w2
          in announceThemeChange newTheme w3)"

text \<open>
  \<^verbatim>\<open>toggleTheme\<close> (lines 139-142). It is rebuilt by \<^verbatim>\<open>useCallback\<close> whenever \<^verbatim>\<open>theme\<close>
  changes; the first argument is the \<^verbatim>\<open>theme\<close> its closure has captured.
\<close>

definition toggleTheme :: "js_value \<Rightarrow> world \<Rightarrow> exn option \<times> world" where
  "toggleTheme captured w =
     (let newTheme = (if captured = Str ''dark'' then Str ''light'' else Str ''dark'')
      in setTheme newTheme w)"

text \<open>
  The initialisation effect (lines 147-168). \<^verbatim>\<open>savedTheme && (...)\<close> is false for
  \<^verbatim>\<open>null\<close> and for the empty string. What the \<^verbatim>\<open>try\<close> block throws, the read of the
  storage or the call of \<^verbatim>\<open>detectSystemTheme\<close>, is caught; the handler warns and calls
  \<^verbatim>\<open>detectSystemTheme\<close> itself, and what that call throws leaves the effect.
\<close>

definition effect_init :: "world \<Rightarrow> exn option \<times> world" where
  "effect_init w =
     (let tried =
            (case localStorage_getItem (storageKey THEME_CONFIG) w of
               Inr savedTheme \<Rightarrow>
                 (case savedTheme of
                    Some s \<Rightarrow>
                      if s \<noteq> [] \<and> (s = ''light'' \<or> s = ''dark'') then (Inr (Str s), w)
                      else detectSystemTheme w
                  | None \<Rightarrow> detectSystemTheme w)
             | Inl error \<Rightarrow> (Inl error, w));
          caught =
            (case tried of
               (Inr initialTheme, w1) \<Rightarrow> (Inr initialTheme, w1)
             | (Inl error, w1) \<Rightarrow>
                 detectSystemTheme (console_warn ''Failed to load theme preference:'' w1))
      in case caught of
           (Inl error, w2) \<Rightarrow> (Some error, w2)
         | (Inr initialTheme, w2) \<Rightarrow>
             let w3 = setThemeState initialTheme w2;
                 w4 = applyTheme initialTheme w3
             in (None, setMounted True w4))"

text \<open>
  \<^verbatim>\<open>handleChange\<close> (lines 178-191), with \<^verbatim>\<open>e.matches\<close> as its argument. The call of
  \<^verbatim>\<open>setTheme\<close> stands inside the \<^verbatim>\<open>try\<close>, so what it throws is caught here too.
\<close>

definition handleChange :: "bool \<Rightarrow> world \<Rightarrow> world" where
  "handleChange e_matches w =
     (let w1 = setSystemPrefersDark e_matches w
      in case localStorage_getItem (storageKey THEME_CONFIG) w1 of
           Inl error \<Rightarrow> console_warn ''Failed to check theme preference:'' w1
         | Inr savedTheme \<Rightarrow>
             if savedTheme = None \<or> savedTheme = Some [] then
               (let systemTheme = (if e_matches then Str ''dark'' else Str ''light'')
                in case setTheme systemTheme w1 of
                     (None, w2) \<Rightarrow> w2
                   | (Some error, w2) \<Rightarrow> console_warn ''Failed to check theme preference:'' w2)
             else w1)"

text \<open>
  The system-preference effect (lines 173-203): its body, which calls \<^verbatim>\<open>window.matchMedia\<close>
  with no guard (line 176), registers \<^verbatim>\<open>handleChange\<close> by the modern or by the legacy
  method and keeps the matching cleanup.
\<close>

definition effect_system :: "world \<Rightarrow> exn option \<times> world" where
  "effect_system w =
     (if \<not> window_defined w then (None, w)
      else if \<not> matchMedia_defined w then (Some TypeError, w)
      else if media_addEventListener w then
        (None, (addEventListener MediaQueryList ''change'' HandleChange w)
                 \<lparr>cleanup_system := Some MediaRemoveEventListener\<rparr>)
      else if media_addListener w then
        (None, (addEventListener MediaQueryList ''change'' HandleChange w)
                 \<lparr>cleanup_system := Some MediaRemoveListener\<rparr>)
      else (None, w))"

text \<open>The keyboard effect (lines 208-219) and its handler.\<close>

record key_event =
  ctrlKey :: bool
  metaKey :: bool
  shiftKey :: bool
  key :: string

definition handleKeyDown :: "js_value \<Rightarrow> key_event \<Rightarrow> world \<Rightarrow> exn option \<times> world" where
  "handleKeyDown captured event w =
     (if (ctrlKey event \<or> metaKey event) \<and> shiftKey event \<and> key event = ''T''
      then toggleTheme captured (emit PreventDefault w)
      else (None, w))"

definition effect_keyboard :: "js_value \<Rightarrow> world \<Rightarrow> exn option \<times> world" where
  "effect_keyboard captured w =
     (if \<not> document_defined w then (Some ReferenceError, w)
      else (None, (addEventListener Document ''keydown'' (HandleKeyDown captured) w)
                    \<lparr>cleanup_keyboard := Some (DocumentRemoveKeyDown captured)\<rparr>))"

text \<open>The last effect (lines 224-230) does nothing but return its cleanup.\<close>

definition effect_announcer :: "world \<Rightarrow> world" where
  "effect_announcer w = w\<lparr>cleanup_announcer := Some DetachAnnouncer\<rparr>"

text \<open>
  The cleanups (lines 196, 201, 218 and 225-229). The announcer is only ever appended to the
  body, so its \<^verbatim>\<open>parentNode\<close> is the body or \<^verbatim>\<open>null\<close>.
\<close>

fun run_cleanup :: "cleanup \<Rightarrow> world \<Rightarrow> world" where
  "run_cleanup MediaRemoveEventListener w = removeEventListener MediaQueryList ''change'' HandleChange w"
| "run_cleanup MediaRemoveListener w = removeEventListener MediaQueryList ''change'' HandleChange w"
| "run_cleanup (DocumentRemoveKeyDown captured) w =
     removeEventListener Document ''keydown'' (HandleKeyDown captured) w"
| "run_cleanup DetachAnnouncer w =
     (case announcerRef w of
        Some a \<Rightarrow> if a \<in> fst ` set (body_children w) then snd (body_removeChild a w) else w
      | None \<Rightarrow> w)"

text \<open>
  The timer callbacks (lines 72-74 and 112-119). The second one names \<^verbatim>\<open>document\<close>; the
  timer queue reports what a callback throws.
\<close>

fun run_timer :: "timer_callback \<Rightarrow> world \<Rightarrow> world" where
  "run_timer RemoveTransition w = style_removeProperty ''--theme-transition'' w"
| "run_timer (RemoveAnnouncer announcer) w =
     (if \<not> document_defined w then emit (Uncaught ReferenceError) w
      else if announcer \<in> fst ` set (body_children w) then
        (let w1 = snd (body_removeChild announcer w)
         in if announcerRef w1 = Some announcer then w1\<lparr>announcerRef := None\<rparr> else w1)
      else w)"

subsection \<open>The life of a hook instance\<close>

text \<open>
  After a handler has run React renders again. \<^verbatim>\<open>setTheme\<close>, \<^verbatim>\<open>applyTheme\<close> and the other
  callbacks have empty or stable dependency lists, so they stay the same; \<^verbatim>\<open>toggleTheme\<close>
  depends on \<^verbatim>\<open>theme\<close>, and the keyboard effect depends on \<^verbatim>\<open>toggleTheme\<close>. When the
  keyboard effect last ran with a \<^verbatim>\<open>toggleTheme\<close> that captured another theme than the
  current one, React runs its cleanup and then the effect again. The render gives the
  consumer the \<^verbatim>\<open>toggleTheme\<close> that has captured the current theme. An instance whose
  effects are not in place (before the mount, after the teardown) does not render.
\<close>

definition rerender :: "world \<Rightarrow> world" where
  "rerender w =
     (case cleanup_keyboard w of
        Some (DocumentRemoveKeyDown captured) \<Rightarrow>
          let w1 = w\<lparr>toggleTheme_captured := theme w\<rparr>
          in if captured = toggleTheme_captured w1 then w1
             else (case effect_keyboard (toggleTheme_captured w1)
                          (run_cleanup (DocumentRemoveKeyDown captured) w1) of
                     (None, w2) \<Rightarrow> w2
                   | (Some error, w2) \<Rightarrow> emit (Uncaught error) w2)
      | Some other \<Rightarrow> w
      | None \<Rightarrow> w)"

text \<open>
  Mounting runs the four effects in the order of the source, with the callbacks of the first
  render (whose \<^verbatim>\<open>theme\<close> is the initial state), and then renders again. An effect that throws
  ends the mount.
\<close>

definition mount :: "world \<Rightarrow> exn option \<times> world" where
  "mount w =
     (case effect_init w of
        (Some error, w1) \<Rightarrow> (Some error, w1)
      | (None, w1) \<Rightarrow>
          (case effect_system w1 of
             (Some error, w2) \<Rightarrow> (Some error, w2)
           | (None, w2) \<Rightarrow>
               (case effect_keyboard (toggleTheme_captured w) w2 of
                  (Some error, w3) \<Rightarrow> (Some error, w3)
                | (None, w3) \<Rightarrow> (None, rerender (effect_announcer w3)))))"

text \<open>Unmounting runs the cleanups the effects have returned, in the order of the effects.\<close>

definition unmount :: "world \<Rightarrow> world" where
  "unmount w =
     (let w1 = (case cleanup_system w of Some c \<Rightarrow> run_cleanup c w | None \<Rightarrow> w);
          w2 = (case cleanup_keyboard w1 of Some c \<Rightarrow> run_cleanup c w1 | None \<Rightarrow> w1);
          w3 = (case cleanup_announcer w2 of Some c \<Rightarrow> run_cleanup c w2 | None \<Rightarrow> w2)
      in w3\<lparr>cleanup_system := None, cleanup_keyboard := None, cleanup_announcer := None\<rparr>)"

text \<open>
  Events. A \<^verbatim>\<open>change\<close> event of the media query list carries \<^verbatim>\<open>matches\<close>; a storage event
  carries the key, the new value and whether its storage area is \<^verbatim>\<open>localStorage\<close>.
\<close>

record storage_event =
  changed_key :: "string option"
  newValue :: "string option"
  area_is_localStorage :: bool

datatype event =
  Change bool
| KeyDown key_event
| Storage storage_event

fun event_target :: "event \<Rightarrow> target \<times> string" where
  "event_target (Change m) = (MediaQueryList, ''change'')"
| "event_target (KeyDown e) = (Document, ''keydown'')"
| "event_target (Storage e) = (Window, ''storage'')"

fun call_handler :: "handler \<Rightarrow> event \<Rightarrow> world \<Rightarrow> exn option \<times> world" where
  "call_handler HandleChange (Change m) w = (None, handleChange m w)"
| "call_handler (HandleKeyDown captured) (KeyDown e) w = handleKeyDown captured e w"
| "call_handler h ev w = (None, w)"

text \<open>
  An event goes to the listeners registered for its target and type, in the order of their
  registration; what a listener throws is reported and does not stop the others.
\<close>

definition deliver :: "event \<Rightarrow> listener \<Rightarrow> world \<Rightarrow> world" where
  "deliver ev l w =
     (case l of (tg, ty, h) \<Rightarrow>
        if (tg, ty) = event_target ev
        then (case call_handler h ev w of
                (None, w1) \<Rightarrow> w1
              | (Some error, w1) \<Rightarrow> emit (Uncaught error) w1)
        else w)"

definition dispatch :: "event \<Rightarrow> world \<Rightarrow> world" where
  "dispatch ev w = fold (deliver ev) (listeners w) w"

definition fire_timer :: "nat \<Rightarrow> world \<Rightarrow> world" where
  "fire_timer i w =
     (case drop i (timers w) of
        [] \<Rightarrow> w
      | (cb, delay) # rest \<Rightarrow> run_timer cb (w\<lparr>timers := take i (timers w) @ rest\<rparr>))"

text \<open>
  What can happen to a mounted instance: a consumer calls one of the two callbacks of the
  latest render; the system preference changes; a key is pressed; another browsing context
  of the same origin writes or removes a storage item, which changes the shared storage and
  sends this context a storage event; a pending timer fires; the storage starts or stops
  refusing reads and writes. Each is followed by a render.
\<close>

datatype action =
  CallSetTheme js_value
| CallToggleTheme
| SystemPreferenceChanges bool
| KeyPressed key_event
| OtherContextWrites string "string option"
| TimerFires nat
| StorageRefuses bool bool

fun perform :: "action \<Rightarrow> world \<Rightarrow> world" where
  "perform (CallSetTheme v) w = snd (setTheme v w)"
| "perform CallToggleTheme w = snd (toggleTheme (toggleTheme_captured w) w)"
| "perform (SystemPreferenceChanges m) w = dispatch (Change m) (w\<lparr>media_matches := m\<rparr>)"
| "perform (KeyPressed e) w = dispatch (KeyDown e) w"
| "perform (OtherContextWrites k v) w =
     dispatch (Storage \<lparr>changed_key = Some k, newValue = v, area_is_localStorage = True\<rparr>)
       (w\<lparr>storage_items := (storage_items w)(k := v)\<rparr>)"
| "perform (TimerFires i) w = fire_timer i w"
| "perform (StorageRefuses g s) w = w\<lparr>storage_get_throws := g, storage_set_throws := s\<rparr>"

definition step :: "action \<Rightarrow> world \<Rightarrow> world" where
  "step a w = rerender (perform a w)"

text \<open>
  Before the mount the instance holds the initial values of its \<^verbatim>\<open>useState\<close> and \<^verbatim>\<open>useRef\<close>
  calls (lines 38-41) and has registered, scheduled and announced nothing. The environment
  is arbitrary.
\<close>

definition initial :: "world \<Rightarrow> bool" where
  "initial w \<longleftrightarrow>
     theme w = defaultTheme THEME_CONFIG \<and> \<not> mounted w \<and> \<not> systemPrefersDark w \<and>
     toggleTheme_captured w = defaultTheme THEME_CONFIG \<and>
     announcerRef w = None \<and> cleanup_system w = None \<and> cleanup_keyboard w = None \<and>
     cleanup_announcer w = None \<and> body_children w = [] \<and> timers w = [] \<and>
     listeners w = [] \<and> trace w = []"

text \<open>The states of a mounted instance.\<close>

inductive reachable :: "world \<Rightarrow> bool" where
  reachable_mount: "initial w \<Longrightarrow> mount w = (None, w') \<Longrightarrow> reachable w'"
| reachable_step: "reachable w \<Longrightarrow> reachable (step a w)"

subsection \<open>Notions used in the statements\<close>

text \<open>The two values of TypeScript's \<^verbatim>\<open>Theme\<close>.\<close>

definition valid_theme :: "js_value \<Rightarrow> bool" where
  "valid_theme t \<longleftrightarrow> t = Str ''light'' \<or> t = Str ''dark''"

text \<open>The effects between an earlier world and a later one.\<close>

definition effects_since :: "world \<Rightarrow> world \<Rightarrow> effect list" where
  "effects_since w w' = drop (length (trace w)) (trace w')"

text \<open>\<open>a\<close> is among the effects that precede the first \<open>b\<close>.\<close>

definition happens_before :: "effect \<Rightarrow> effect \<Rightarrow> effect list \<Rightarrow> bool" where
  "happens_before a b es \<longleftrightarrow> b \<in> set es \<and> a \<in> set (takeWhile (\<lambda>e. e \<noteq> b) es)"

text \<open>
  The invariant of a mounted instance has five parts. The effective theme is one of the two
  themes. The element the ref points to is a
  child of the body. The registered listeners are the ones of the two effects, the keyboard
  handler being the one of the current theme, with the cleanups that remove exactly them;
  the system listener is there when the environment let the effect register it. The
  document exists. And the \<^verbatim>\<open>toggleTheme\<close> the consumer holds has captured the current theme.
\<close>

definition ref_attached :: "world \<Rightarrow> bool" where
  "ref_attached w \<longleftrightarrow> set_option (announcerRef w) \<subseteq> fst ` set (body_children w)"

definition subscribed_as :: "js_value \<Rightarrow> world \<Rightarrow> bool" where
  "subscribed_as c w \<longleftrightarrow>
     cleanup_keyboard w = Some (DocumentRemoveKeyDown c) \<and>
     cleanup_announcer w = Some DetachAnnouncer \<and>
     (cleanup_system w = None) = (\<not> window_defined w \<or> \<not> media_addEventListener w \<and> \<not> media_addListener w) \<and>
     (cleanup_system w = None \<and>
        listeners w = [(Document, ''keydown'', HandleKeyDown c)] \<or>
      (cleanup_system w = Some MediaRemoveEventListener \<or> cleanup_system w = Some MediaRemoveListener) \<and>
        listeners w = [(MediaQueryList, ''change'', HandleChange),
                       (Document, ''keydown'', HandleKeyDown c)])"

definition consistent :: "world \<Rightarrow> bool" where
  "consistent w \<longleftrightarrow>
     document_defined w \<and> valid_theme (theme w) \<and> ref_attached w \<and> subscribed_as (theme w) w \<and>
     toggleTheme_captured w = theme w"

text \<open>Two worlds with the same subscriptions in the same environment.\<close>

definition same_setup :: "world \<Rightarrow> world \<Rightarrow> bool" where
  "same_setup w' w \<longleftrightarrow>
     listeners w' = listeners w \<and> cleanup_system w' = cleanup_system w \<and>
     cleanup_keyboard w' = cleanup_keyboard w \<and> cleanup_announcer w' = cleanup_announcer w \<and>
     window_defined w' = window_defined w \<and> document_defined w' = document_defined w \<and>
     media_addEventListener w' = media_addEventListener w \<and>
     media_addListener w' = media_addListener w"

text \<open>
  A page in a current browser before the hook mounts: the system asks for light, the storage
  is empty and works, and the page has a theme-color meta element.
\<close>

definition fresh_browser :: world where
  "fresh_browser =
     \<lparr>theme = Str ''light'', mounted = False, systemPrefersDark = False, announcerRef = None,
      toggleTheme_captured = Str ''light'',
      cleanup_system = None, cleanup_keyboard = None, cleanup_announcer = None,
      window_defined = True, document_defined = True, matchMedia_defined = True,
      media_matches = False,
      media_addEventListener = True, media_addListener = True,
      storage_items = Map.empty, storage_get_throws = False, storage_set_throws = False,
      root_classList = [], root_style = Map.empty, meta_theme_color = Some ''#ffffff'',
      body_children = [], next_id = 0, timers = [], listeners = [], trace = []\<rparr>"

section \<open>Properties\<close>

subsection \<open>The string of a value\<close>

lemma to_string_simps [simp]:
  "to_string (Str s) = s" "to_string Null = ''null''" "to_string Undefined = ''undefined''"
  by (simp_all add: to_string_def)

lemma valid_theme_ToString: "valid_theme t \<Longrightarrow> ToString t = Inr (to_string t)"
  by (auto simp add: valid_theme_def)

subsection \<open>The primitive operations, field by field\<close>

text \<open>
  Every primitive changes one field of the world and adds one entry to the trace. Stating that
  field by field lets the functions of the hook be run symbolically, one call at a time,
  without unfolding the primitives they call.
\<close>

lemma emit_fields [simp]:
  "theme (emit e w) = theme w" "mounted (emit e w) = mounted w"
  "systemPrefersDark (emit e w) = systemPrefersDark w" "announcerRef (emit e w) = announcerRef w"
  "toggleTheme_captured (emit e w) = toggleTheme_captured w"
  "cleanup_system (emit e w) = cleanup_system w"
  "cleanup_keyboard (emit e w) = cleanup_keyboard w"
  "cleanup_announcer (emit e w) = cleanup_announcer w"
  "window_defined (emit e w) = window_defined w"
  "document_defined (emit e w) = document_defined w"
  "matchMedia_defined (emit e w) = matchMedia_defined w"
  "media_matches (emit e w) = media_matches w"
  "media_addEventListener (emit e w) = media_addEventListener w"
  "media_addListener (emit e w) = media_addListener w"
  "storage_items (emit e w) = storage_items w"
  "storage_get_throws (emit e w) = storage_get_throws w"
  "storage_set_throws (emit e w) = storage_set_throws w"
  "root_classList (emit e w) = root_classList w" "root_style (emit e w) = root_style w"
  "meta_theme_color (emit e w) = meta_theme_color w" "body_children (emit e w) = body_children w"
  "next_id (emit e w) = next_id w" "timers (emit e w) = timers w"
  "listeners (emit e w) = listeners w" "trace (emit e w) = trace w @ [e]"
  by (simp_all add: emit_def)

lemma setThemeState_fields [simp]:
  "theme (setThemeState v w) = v" "mounted (setThemeState v w) = mounted w"
  "systemPrefersDark (setThemeState v w) = systemPrefersDark w"
  "announcerRef (setThemeState v w) = announcerRef w"
  "toggleTheme_captured (setThemeState v w) = toggleTheme_captured w"
  "cleanup_system (setThemeState v w) = cleanup_system w"
  "cleanup_keyboard (setThemeState v w) = cleanup_keyboard w"
  "cleanup_announcer (setThemeState v w) = cleanup_announcer w"
  "window_defined (setThemeState v w) = window_defined w"
  "document_defined (setThemeState v w) = document_defined w"
  "matchMedia_defined (setThemeState v w) = matchMedia_defined w"
  "media_matches (setThemeState v w) = media_matches w"
  "media_addEventListener (setThemeState v w) = media_addEventListener w"
  "media_addListener (setThemeState v w) = media_addListener w"
  "storage_items (setThemeState v w) = storage_items w"
  "storage_get_throws (setThemeState v w) = storage_get_throws w"
  "storage_set_throws (setThemeState v w) = storage_set_throws w"
  "root_classList (setThemeState v w) = root_classList w"
  "root_style (setThemeState v w) = root_style w"
  "meta_theme_color (setThemeState v w) = meta_theme_color w"
  "body_children (setThemeState v w) = body_children w" "next_id (setThemeState v w) = next_id w"
  "timers (setThemeState v w) = timers w" "listeners (setThemeState v w) = listeners w"
  "trace (setThemeState v w) = trace w @ [SetThemeState v]"
  by (simp_all add: setThemeState_def)

lemma setMounted_fields [simp]:
  "theme (setMounted b w) = theme w" "mounted (setMounted b w) = b"
  "systemPrefersDark (setMounted b w) = systemPrefersDark w"
  "announcerRef (setMounted b w) = announcerRef w"
  "toggleTheme_captured (setMounted b w) = toggleTheme_captured w"
  "cleanup_system (setMounted b w) = cleanup_system w"
  "cleanup_keyboard (setMounted b w) = cleanup_keyboard w"
  "cleanup_announcer (setMounted b w) = cleanup_announcer w"
  "window_defined (setMounted b w) = window_defined w"
  "document_defined (setMounted b w) = document_defined w"
  "matchMedia_defined (setMounted b w) = matchMedia_defined w"
  "media_matches (setMounted b w) = media_matches w"
  "media_addEventListener (setMounted b w) = media_addEventListener w"
  "media_addListener (setMounted b w) = media_addListener w"
  "storage_items (setMounted b w) = storage_items w"
  "storage_get_throws (setMounted b w) = storage_get_throws w"
  "storage_set_throws (setMounted b w) = storage_set_throws w"
  "root_classList (setMounted b w) = root_classList w"
  "root_style (setMounted b w) = root_style w"
  "meta_theme_color (setMounted b w) = meta_theme_color w"
  "body_children (setMounted b w) = body_children w" "next_id (setMounted b w) = next_id w"
  "timers (setMounted b w) = timers w" "listeners (setMounted b w) = listeners w"
  "trace (setMounted b w) = trace w @ [SetMounted b]"
  by (simp_all add: setMounted_def)

lemma setSystemPrefersDark_fields [simp]:
  "theme (setSystemPrefersDark b w) = theme w" "mounted (setSystemPrefersDark b w) = mounted w"
  "systemPrefersDark (setSystemPrefersDark b w) = b"
  "announcerRef (setSystemPrefersDark b w) = announcerRef w"
  "toggleTheme_captured (setSystemPrefersDark b w) = toggleTheme_captured w"
  "cleanup_system (setSystemPrefersDark b w) = cleanup_system w"
  "cleanup_keyboard (setSystemPrefersDark b w) = cleanup_keyboard w"
  "cleanup_announcer (setSystemPrefersDark b w) = cleanup_announcer w"
  "window_defined (setSystemPrefersDark b w) = window_defined w"
  "document_defined (setSystemPrefersDark b w) = document_defined w"
  "matchMedia_defined (setSystemPrefersDark b w) = matchMedia_defined w"
  "media_matches (setSystemPrefersDark b w) = media_matches w"
  "media_addEventListener (setSystemPrefersDark b w) = media_addEventListener w"
  "media_addListener (setSystemPrefersDark b w) = media_addListener w"
  "storage_items (setSystemPrefersDark b w) = storage_items w"
  "storage_get_throws (setSystemPrefersDark b w) = storage_get_throws w"
  "storage_set_throws (setSystemPrefersDark b w) = storage_set_throws w"
  "root_classList (setSystemPrefersDark b w) = root_classList w"
  "root_style (setSystemPrefersDark b w) = root_style w"
  "meta_theme_color (setSystemPrefersDark b w) = meta_theme_color w"
  "body_children (setSystemPrefersDark b w) = body_children w"
  "next_id (setSystemPrefersDark b w) = next_id w" "timers (setSystemPrefersDark b w) = timers w"
  "listeners (setSystemPrefersDark b w) = listeners w"
  "trace (setSystemPrefersDark b w) = trace w @ [SetSystemPrefersDark b]"
  by (simp_all add: setSystemPrefersDark_def)

lemma console_warn_fields [simp]:
  "theme (console_warn msg w) = theme w" "mounted (console_warn msg w) = mounted w"
  "systemPrefersDark (console_warn msg w) = systemPrefersDark w"
  "announcerRef (console_warn msg w) = announcerRef w"
  "toggleTheme_captured (console_warn msg w) = toggleTheme_captured w"
  "cleanup_system (console_warn msg w) = cleanup_system w"
  "cleanup_keyboard (console_warn msg w) = cleanup_keyboard w"
  "cleanup_announcer (console_warn msg w) = cleanup_announcer w"
  "window_defined (console_warn msg w) = window_defined w"
  "document_defined (console_warn msg w) = document_defined w"
  "matchMedia_defined (console_warn msg w) = matchMedia_defined w"
  "media_matches (console_warn msg w) = media_matches w"
  "media_addEventListener (console_warn msg w) = media_addEventListener w"
  "media_addListener (console_warn msg w) = media_addListener w"
  "storage_items (console_warn msg w) = storage_items w"
  "storage_get_throws (console_warn msg w) = storage_get_throws w"
  "storage_set_throws (console_warn msg w) = storage_set_throws w"
  "root_classList (console_warn msg w) = root_classList w"
  "root_style (console_warn msg w) = root_style w"
  "meta_theme_color (console_warn msg w) = meta_theme_color w"
  "body_children (console_warn msg w) = body_children w"
  "next_id (console_warn msg w) = next_id w" "timers (console_warn msg w) = timers w"
  "listeners (console_warn msg w) = listeners w"
  "trace (console_warn msg w) = trace w @ [ConsoleWarn msg]"
  by (simp_all add: console_warn_def)

lemma style_setProperty_fields [simp]:
  "theme (style_setProperty p v w) = theme w" "mounted (style_setProperty p v w) = mounted w"
  "systemPrefersDark (style_setProperty p v w) = systemPrefersDark w"
  "announcerRef (style_setProperty p v w) = announcerRef w"
  "toggleTheme_captured (style_setProperty p v w) = toggleTheme_captured w"
  "cleanup_system (style_setProperty p v w) = cleanup_system w"
  "cleanup_keyboard (style_setProperty p v w) = cleanup_keyboard w"
  "cleanup_announcer (style_setProperty p v w) = cleanup_announcer w"
  "window_defined (style_setProperty p v w) = window_defined w"
  "document_defined (style_setProperty p v w) = document_defined w"
  "matchMedia_defined (style_setProperty p v w) = matchMedia_defined w"
  "media_matches (style_setProperty p v w) = media_matches w"
  "media_addEventListener (style_setProperty p v w) = media_addEventListener w"
  "media_addListener (style_setProperty p v w) = media_addListener w"
  "storage_items (style_setProperty p v w) = storage_items w"
  "storage_get_throws (style_setProperty p v w) = storage_get_throws w"
  "storage_set_throws (style_setProperty p v w) = storage_set_throws w"
  "root_classList (style_setProperty p v w) = root_classList w"
  "root_style (style_setProperty p v w) = (root_style w)(p \<mapsto> v)"
  "meta_theme_color (style_setProperty p v w) = meta_theme_color w"
  "body_children (style_setProperty p v w) = body_children w"
  "next_id (style_setProperty p v w) = next_id w" "timers (style_setProperty p v w) = timers w"
  "listeners (style_setProperty p v w) = listeners w"
  "trace (style_setProperty p v w) = trace w @ [StyleSetProperty p v]"
  by (simp_all add: style_setProperty_def)

lemma style_removeProperty_fields [simp]:
  "theme (style_removeProperty p w) = theme w" "mounted (style_removeProperty p w) = mounted w"
  "systemPrefersDark (style_removeProperty p w) = systemPrefersDark w"
  "announcerRef (style_removeProperty p w) = announcerRef w"
  "toggleTheme_captured (style_removeProperty p w) = toggleTheme_captured w"
  "cleanup_system (style_removeProperty p w) = cleanup_system w"
  "cleanup_keyboard (style_removeProperty p w) = cleanup_keyboard w"
  "cleanup_announcer (style_removeProperty p w) = cleanup_announcer w"
  "window_defined (style_removeProperty p w) = window_defined w"
  "document_defined (style_removeProperty p w) = document_defined w"
  "matchMedia_defined (style_removeProperty p w) = matchMedia_defined w"
  "media_matches (style_removeProperty p w) = media_matches w"
  "media_addEventListener (style_removeProperty p w) = media_addEventListener w"
  "media_addListener (style_removeProperty p w) = media_addListener w"
  "storage_items (style_removeProperty p w) = storage_items w"
  "storage_get_throws (style_removeProperty p w) = storage_get_throws w"
  "storage_set_throws (style_removeProperty p w) = storage_set_throws w"
  "root_classList (style_removeProperty p w) = root_classList w"
  "root_style (style_removeProperty p w) = (root_style w)(p := None)"
  "meta_theme_color (style_removeProperty p w) = meta_theme_color w"
  "body_children (style_removeProperty p w) = body_children w"
  "next_id (style_removeProperty p w) = next_id w" "timers (style_removeProperty p w) = timers w"
  "listeners (style_removeProperty p w) = listeners w"
  "trace (style_removeProperty p w) = trace w @ [StyleRemoveProperty p]"
  by (simp_all add: style_removeProperty_def)

lemma classList_add_fields [simp]:
  "theme (classList_add c w) = theme w" "mounted (classList_add c w) = mounted w"
  "systemPrefersDark (classList_add c w) = systemPrefersDark w"
  "announcerRef (classList_add c w) = announcerRef w"
  "toggleTheme_captured (classList_add c w) = toggleTheme_captured w"
  "cleanup_system (classList_add c w) = cleanup_system w"
  "cleanup_keyboard (classList_add c w) = cleanup_keyboard w"
  "cleanup_announcer (classList_add c w) = cleanup_announcer w"
  "window_defined (classList_add c w) = window_defined w"
  "document_defined (classList_add c w) = document_defined w"
  "matchMedia_defined (classList_add c w) = matchMedia_defined w"
  "media_matches (classList_add c w) = media_matches w"
  "media_addEventListener (classList_add c w) = media_addEventListener w"
  "media_addListener (classList_add c w) = media_addListener w"
  "storage_items (classList_add c w) = storage_items w"
  "storage_get_throws (classList_add c w) = storage_get_throws w"
  "storage_set_throws (classList_add c w) = storage_set_throws w"
  "root_classList (classList_add c w) = (if c \<in> set (root_classList w) then root_classList w else root_classList w @ [c])"
  "root_style (classList_add c w) = root_style w"
  "meta_theme_color (classList_add c w) = meta_theme_color w"
  "body_children (classList_add c w) = body_children w" "next_id (classList_add c w) = next_id w"
  "timers (classList_add c w) = timers w" "listeners (classList_add c w) = listeners w"
  "trace (classList_add c w) = trace w @ [ClassListAdd c]"
  by (simp_all add: classList_add_def)

lemma classList_remove_fields [simp]:
  "theme (classList_remove c w) = theme w" "mounted (classList_remove c w) = mounted w"
  "systemPrefersDark (classList_remove c w) = systemPrefersDark w"
  "announcerRef (classList_remove c w) = announcerRef w"
  "toggleTheme_captured (classList_remove c w) = toggleTheme_captured w"
  "cleanup_system (classList_remove c w) = cleanup_system w"
  "cleanup_keyboard (classList_remove c w) = cleanup_keyboard w"
  "cleanup_announcer (classList_remove c w) = cleanup_announcer w"
  "window_defined (classList_remove c w) = window_defined w"
  "document_defined (classList_remove c w) = document_defined w"
  "matchMedia_defined (classList_remove c w) = matchMedia_defined w"
  "media_matches (classList_remove c w) = media_matches w"
  "media_addEventListener (classList_remove c w) = media_addEventListener w"
  "media_addListener (classList_remove c w) = media_addListener w"
  "storage_items (classList_remove c w) = storage_items w"
  "storage_get_throws (classList_remove c w) = storage_get_throws w"
  "storage_set_throws (classList_remove c w) = storage_set_throws w"
  "root_classList (classList_remove c w) = removeAll c (root_classList w)"
  "root_style (classList_remove c w) = root_style w"
  "meta_theme_color (classList_remove c w) = meta_theme_color w"
  "body_children (classList_remove c w) = body_children w"
  "next_id (classList_remove c w) = next_id w" "timers (classList_remove c w) = timers w"
  "listeners (classList_remove c w) = listeners w"
  "trace (classList_remove c w) = trace w @ [ClassListRemove c]"
  by (simp_all add: classList_remove_def)

lemma setTimeout_fields [simp]:
  "theme (setTimeout cb delay w) = theme w" "mounted (setTimeout cb delay w) = mounted w"
  "systemPrefersDark (setTimeout cb delay w) = systemPrefersDark w"
  "announcerRef (setTimeout cb delay w) = announcerRef w"
  "toggleTheme_captured (setTimeout cb delay w) = toggleTheme_captured w"
  "cleanup_system (setTimeout cb delay w) = cleanup_system w"
  "cleanup_keyboard (setTimeout cb delay w) = cleanup_keyboard w"
  "cleanup_announcer (setTimeout cb delay w) = cleanup_announcer w"
  "window_defined (setTimeout cb delay w) = window_defined w"
  "document_defined (setTimeout cb delay w) = document_defined w"
  "matchMedia_defined (setTimeout cb delay w) = matchMedia_defined w"
  "media_matches (setTimeout cb delay w) = media_matches w"
  "media_addEventListener (setTimeout cb delay w) = media_addEventListener w"
  "media_addListener (setTimeout cb delay w) = media_addListener w"
  "storage_items (setTimeout cb delay w) = storage_items w"
  "storage_get_throws (setTimeout cb delay w) = storage_get_throws w"
  "storage_set_throws (setTimeout cb delay w) = storage_set_throws w"
  "root_classList (setTimeout cb delay w) = root_classList w"
  "root_style (setTimeout cb delay w) = root_style w"
  "meta_theme_color (setTimeout cb delay w) = meta_theme_color w"
  "body_children (setTimeout cb delay w) = body_children w"
  "next_id (setTimeout cb delay w) = next_id w"
  "timers (setTimeout cb delay w) = timers w @ [(cb, delay)]"
  "listeners (setTimeout cb delay w) = listeners w"
  "trace (setTimeout cb delay w) = trace w @ [SetTimeout cb delay]"
  by (simp_all add: setTimeout_def)

lemma meta_setAttribute_fields [simp]:
  "theme (meta_setAttribute a v w) = theme w" "mounted (meta_setAttribute a v w) = mounted w"
  "systemPrefersDark (meta_setAttribute a v w) = systemPrefersDark w"
  "announcerRef (meta_setAttribute a v w) = announcerRef w"
  "toggleTheme_captured (meta_setAttribute a v w) = toggleTheme_captured w"
  "cleanup_system (meta_setAttribute a v w) = cleanup_system w"
  "cleanup_keyboard (meta_setAttribute a v w) = cleanup_keyboard w"
  "cleanup_announcer (meta_setAttribute a v w) = cleanup_announcer w"
  "window_defined (meta_setAttribute a v w) = window_defined w"
  "document_defined (meta_setAttribute a v w) = document_defined w"
  "matchMedia_defined (meta_setAttribute a v w) = matchMedia_defined w"
  "media_matches (meta_setAttribute a v w) = media_matches w"
  "media_addEventListener (meta_setAttribute a v w) = media_addEventListener w"
  "media_addListener (meta_setAttribute a v w) = media_addListener w"
  "storage_items (meta_setAttribute a v w) = storage_items w"
  "storage_get_throws (meta_setAttribute a v w) = storage_get_throws w"
  "storage_set_throws (meta_setAttribute a v w) = storage_set_throws w"
  "root_classList (meta_setAttribute a v w) = root_classList w"
  "root_style (meta_setAttribute a v w) = root_style w"
  "meta_theme_color (meta_setAttribute a v w) = Some v"
  "body_children (meta_setAttribute a v w) = body_children w"
  "next_id (meta_setAttribute a v w) = next_id w" "timers (meta_setAttribute a v w) = timers w"
  "listeners (meta_setAttribute a v w) = listeners w"
  "trace (meta_setAttribute a v w) = trace w @ [MetaSetAttribute a v]"
  by (simp_all add: meta_setAttribute_def)

lemma body_appendChild_fields [simp]:
  "theme (body_appendChild a el w) = theme w" "mounted (body_appendChild a el w) = mounted w"
  "systemPrefersDark (body_appendChild a el w) = systemPrefersDark w"
  "announcerRef (body_appendChild a el w) = announcerRef w"
  "toggleTheme_captured (body_appendChild a el w) = toggleTheme_captured w"
  "cleanup_system (body_appendChild a el w) = cleanup_system w"
  "cleanup_keyboard (body_appendChild a el w) = cleanup_keyboard w"
  "cleanup_announcer (body_appendChild a el w) = cleanup_announcer w"
  "window_defined (body_appendChild a el w) = window_defined w"
  "document_defined (body_appendChild a el w) = document_defined w"
  "matchMedia_defined (body_appendChild a el w) = matchMedia_defined w"
  "media_matches (body_appendChild a el w) = media_matches w"
  "media_addEventListener (body_appendChild a el w) = media_addEventListener w"
  "media_addListener (body_appendChild a el w) = media_addListener w"
  "storage_items (body_appendChild a el w) = storage_items w"
  "storage_get_throws (body_appendChild a el w) = storage_get_throws w"
  "storage_set_throws (body_appendChild a el w) = storage_set_throws w"
  "root_classList (body_appendChild a el w) = root_classList w"
  "root_style (body_appendChild a el w) = root_style w"
  "meta_theme_color (body_appendChild a el w) = meta_theme_color w"
  "body_children (body_appendChild a el w) = body_children w @ [(a, el)]"
  "next_id (body_appendChild a el w) = next_id w" "timers (body_appendChild a el w) = timers w"
  "listeners (body_appendChild a el w) = listeners w"
  "trace (body_appendChild a el w) = trace w @ [BodyAppendChild a el]"
  by (simp_all add: body_appendChild_def)

lemma addEventListener_fields [simp]:
  "theme (addEventListener tg ty h w) = theme w"
  "mounted (addEventListener tg ty h w) = mounted w"
  "systemPrefersDark (addEventListener tg ty h w) = systemPrefersDark w"
  "announcerRef (addEventListener tg ty h w) = announcerRef w"
  "toggleTheme_captured (addEventListener tg ty h w) = toggleTheme_captured w"
  "cleanup_system (addEventListener tg ty h w) = cleanup_system w"
  "cleanup_keyboard (addEventListener tg ty h w) = cleanup_keyboard w"
  "cleanup_announcer (addEventListener tg ty h w) = cleanup_announcer w"
  "window_defined (addEventListener tg ty h w) = window_defined w"
  "document_defined (addEventListener tg ty h w) = document_defined w"
  "matchMedia_defined (addEventListener tg ty h w) = matchMedia_defined w"
  "media_matches (addEventListener tg ty h w) = media_matches w"
  "media_addEventListener (addEventListener tg ty h w) = media_addEventListener w"
  "media_addListener (addEventListener tg ty h w) = media_addListener w"
  "storage_items (addEventListener tg ty h w) = storage_items w"
  "storage_get_throws (addEventListener tg ty h w) = storage_get_throws w"
  "storage_set_throws (addEventListener tg ty h w) = storage_set_throws w"
  "root_classList (addEventListener tg ty h w) = root_classList w"
  "root_style (addEventListener tg ty h w) = root_style w"
  "meta_theme_color (addEventListener tg ty h w) = meta_theme_color w"
  "body_children (addEventListener tg ty h w) = body_children w"
  "next_id (addEventListener tg ty h w) = next_id w"
  "timers (addEventListener tg ty h w) = timers w"
  "listeners (addEventListener tg ty h w) = (if (tg, ty, h) \<in> set (listeners w) then listeners w else listeners w @ [(tg, ty, h)])"
  "trace (addEventListener tg ty h w) = trace w @ [AddListener tg ty h]"
  by (simp_all add: addEventListener_def)

lemma removeEventListener_fields [simp]:
  "theme (removeEventListener tg ty h w) = theme w"
  "mounted (removeEventListener tg ty h w) = mounted w"
  "systemPrefersDark (removeEventListener tg ty h w) = systemPrefersDark w"
  "announcerRef (removeEventListener tg ty h w) = announcerRef w"
  "toggleTheme_captured (removeEventListener tg ty h w) = toggleTheme_captured w"
  "cleanup_system (removeEventListener tg ty h w) = cleanup_system w"
  "cleanup_keyboard (removeEventListener tg ty h w) = cleanup_keyboard w"
  "cleanup_announcer (removeEventListener tg ty h w) = cleanup_announcer w"
  "window_defined (removeEventListener tg ty h w) = window_defined w"
  "document_defined (removeEventListener tg ty h w) = document_defined w"
  "matchMedia_defined (removeEventListener tg ty h w) = matchMedia_defined w"
  "media_matches (removeEventListener tg ty h w) = media_matches w"
  "media_addEventListener (removeEventListener tg ty h w) = media_addEventListener w"
  "media_addListener (removeEventListener tg ty h w) = media_addListener w"
  "storage_items (removeEventListener tg ty h w) = storage_items w"
  "storage_get_throws (removeEventListener tg ty h w) = storage_get_throws w"
  "storage_set_throws (removeEventListener tg ty h w) = storage_set_throws w"
  "root_classList (removeEventListener tg ty h w) = root_classList w"
  "root_style (removeEventListener tg ty h w) = root_style w"
  "meta_theme_color (removeEventListener tg ty h w) = meta_theme_color w"
  "body_children (removeEventListener tg ty h w) = body_children w"
  "next_id (removeEventListener tg ty h w) = next_id w"
  "timers (removeEventListener tg ty h w) = timers w"
  "listeners (removeEventListener tg ty h w) = removeAll (tg, ty, h) (listeners w)"
  "trace (removeEventListener tg ty h w) = trace w @ [RemoveListener tg ty h]"
  by (simp_all add: removeEventListener_def)

lemma localStorage_setItem_result [simp]:
  "fst (localStorage_setItem k v w) =
     (if \<not> window_defined w then Some ReferenceError
      else if storage_set_throws w then Some StorageError else None)"
  by (simp add: localStorage_setItem_def)

lemma localStorage_setItem_fields [simp]:
  "theme (snd (localStorage_setItem k v w)) = theme w"
  "mounted (snd (localStorage_setItem k v w)) = mounted w"
  "systemPrefersDark (snd (localStorage_setItem k v w)) = systemPrefersDark w"
  "announcerRef (snd (localStorage_setItem k v w)) = announcerRef w"
  "toggleTheme_captured (snd (localStorage_setItem k v w)) = toggleTheme_captured w"
  "cleanup_system (snd (localStorage_setItem k v w)) = cleanup_system w"
  "cleanup_keyboard (snd (localStorage_setItem k v w)) = cleanup_keyboard w"
  "cleanup_announcer (snd (localStorage_setItem k v w)) = cleanup_announcer w"
  "window_defined (snd (localStorage_setItem k v w)) = window_defined w"
  "document_defined (snd (localStorage_setItem k v w)) = document_defined w"
  "matchMedia_defined (snd (localStorage_setItem k v w)) = matchMedia_defined w"
  "media_matches (snd (localStorage_setItem k v w)) = media_matches w"
  "media_addEventListener (snd (localStorage_setItem k v w)) = media_addEventListener w"
  "media_addListener (snd (localStorage_setItem k v w)) = media_addListener w"
  "storage_items (snd (localStorage_setItem k v w)) = (if window_defined w \<and> \<not> storage_set_throws w then (storage_items w)(k \<mapsto> v) else storage_items w)"
  "storage_get_throws (snd (localStorage_setItem k v w)) = storage_get_throws w"
  "storage_set_throws (snd (localStorage_setItem k v w)) = storage_set_throws w"
  "root_classList (snd (localStorage_setItem k v w)) = root_classList w"
  "root_style (snd (localStorage_setItem k v w)) = root_style w"
  "meta_theme_color (snd (localStorage_setItem k v w)) = meta_theme_color w"
  "body_children (snd (localStorage_setItem k v w)) = body_children w"
  "next_id (snd (localStorage_setItem k v w)) = next_id w"
  "timers (snd (localStorage_setItem k v w)) = timers w"
  "listeners (snd (localStorage_setItem k v w)) = listeners w"
  "trace (snd (localStorage_setItem k v w)) = (if window_defined w \<and> \<not> storage_set_throws w then trace w @ [StorageSetItem k v] else trace w)"
  by (simp_all add: localStorage_setItem_def)

lemma body_removeChild_result [simp]:
  "fst (body_removeChild a w) =
     (if a \<in> fst ` set (body_children w) then None else Some NotFoundError)"
  by (simp add: body_removeChild_def)

lemma body_removeChild_fields [simp]:
  "theme (snd (body_removeChild a w)) = theme w"
  "mounted (snd (body_removeChild a w)) = mounted w"
  "systemPrefersDark (snd (body_removeChild a w)) = systemPrefersDark w"
  "announcerRef (snd (body_removeChild a w)) = announcerRef w"
  "toggleTheme_captured (snd (body_removeChild a w)) = toggleTheme_captured w"
  "cleanup_system (snd (body_removeChild a w)) = cleanup_system w"
  "cleanup_keyboard (snd (body_removeChild a w)) = cleanup_keyboard w"
  "cleanup_announcer (snd (body_removeChild a w)) = cleanup_announcer w"
  "window_defined (snd (body_removeChild a w)) = window_defined w"
  "document_defined (snd (body_removeChild a w)) = document_defined w"
  "matchMedia_defined (snd (body_removeChild a w)) = matchMedia_defined w"
  "media_matches (snd (body_removeChild a w)) = media_matches w"
  "media_addEventListener (snd (body_removeChild a w)) = media_addEventListener w"
  "media_addListener (snd (body_removeChild a w)) = media_addListener w"
  "storage_items (snd (body_removeChild a w)) = storage_items w"
  "storage_get_throws (snd (body_removeChild a w)) = storage_get_throws w"
  "storage_set_throws (snd (body_removeChild a w)) = storage_set_throws w"
  "root_classList (snd (body_removeChild a w)) = root_classList w"
  "root_style (snd (body_removeChild a w)) = root_style w"
  "meta_theme_color (snd (body_removeChild a w)) = meta_theme_color w"
  "body_children (snd (body_removeChild a w)) = (if a \<in> fst ` set (body_children w) then filter (\<lambda>c. fst c \<noteq> a) (body_children w) else body_children w)"
  "next_id (snd (body_removeChild a w)) = next_id w"
  "timers (snd (body_removeChild a w)) = timers w"
  "listeners (snd (body_removeChild a w)) = listeners w"
  "trace (snd (body_removeChild a w)) = (if a \<in> fst ` set (body_children w) then trace w @ [BodyRemoveChild a] else trace w)"
  by (simp_all add: body_removeChild_def)

subsection \<open>The notions of the invariant and the parts of the world\<close>

lemma same_setup_refl [simp]: "same_setup w w"
  by (simp add: same_setup_def)

lemma same_setup_document: "same_setup w' w \<Longrightarrow> document_defined w' = document_defined w"
  by (simp add: same_setup_def)

lemma same_setup_update [simp]:
  "same_setup (theme_update f1 w) w' = same_setup w w'"
  "same_setup (announcerRef_update f2 w) w' = same_setup w w'"
  "same_setup (media_matches_update f3 w) w' = same_setup w w'"
  "same_setup (storage_items_update f4 w) w' = same_setup w w'"
  "same_setup (storage_get_throws_update f5 w) w' = same_setup w w'"
  "same_setup (storage_set_throws_update f6 w) w' = same_setup w w'"
  "same_setup (next_id_update f7 w) w' = same_setup w w'"
  "same_setup (timers_update f8 w) w' = same_setup w w'"
  "same_setup (toggleTheme_captured_update f9 w) w' = same_setup w w'"
  by (simp_all add: same_setup_def)

lemma ref_attached_update [simp]:
  "ref_attached (theme_update f1 w) = ref_attached w"
  "ref_attached (media_matches_update f2 w) = ref_attached w"
  "ref_attached (storage_items_update f3 w) = ref_attached w"
  "ref_attached (storage_get_throws_update f4 w) = ref_attached w"
  "ref_attached (storage_set_throws_update f5 w) = ref_attached w"
  "ref_attached (timers_update f6 w) = ref_attached w"
  "ref_attached (next_id_update f7 w) = ref_attached w"
  "ref_attached (cleanup_system_update f8 w) = ref_attached w"
  "ref_attached (cleanup_keyboard_update f9 w) = ref_attached w"
  "ref_attached (cleanup_announcer_update f10 w) = ref_attached w"
  "ref_attached (toggleTheme_captured_update f11 w) = ref_attached w"
  by (simp_all add: ref_attached_def)

lemma subscribed_as_update [simp]:
  "subscribed_as c (media_matches_update f1 w) = subscribed_as c w"
  "subscribed_as c (storage_items_update f2 w) = subscribed_as c w"
  "subscribed_as c (storage_get_throws_update f3 w) = subscribed_as c w"
  "subscribed_as c (storage_set_throws_update f4 w) = subscribed_as c w"
  "subscribed_as c (toggleTheme_captured_update f5 w) = subscribed_as c w"
  by (simp_all add: subscribed_as_def)

lemma subscribed_as_cong: "same_setup w' w \<Longrightarrow> subscribed_as c w' = subscribed_as c w"
  by (simp add: same_setup_def subscribed_as_def)

lemma primitive_frame [simp]:
  "same_setup (emit e w) w' = same_setup w w'"
  "same_setup (setThemeState v w) w' = same_setup w w'"
  "same_setup (setMounted b w) w' = same_setup w w'"
  "same_setup (setSystemPrefersDark b w) w' = same_setup w w'"
  "same_setup (console_warn msg w) w' = same_setup w w'"
  "same_setup (style_removeProperty p w) w' = same_setup w w'"
  "same_setup (snd (body_removeChild a w)) w' = same_setup w w'"
  "ref_attached (emit e w) = ref_attached w"
  "ref_attached (setThemeState v w) = ref_attached w"
  "ref_attached (setMounted b w) = ref_attached w"
  "ref_attached (setSystemPrefersDark b w) = ref_attached w"
  "ref_attached (console_warn msg w) = ref_attached w"
  "ref_attached (style_removeProperty p w) = ref_attached w"
  "ref_attached (addEventListener tg ty h w) = ref_attached w"
  "ref_attached (removeEventListener tg ty h w) = ref_attached w"
  by (simp_all add: same_setup_def ref_attached_def)

subsection \<open>\<^verbatim>\<open>applyTheme\<close>\<close>

lemma applyTheme_fields [simp]:
  "theme (applyTheme t w) = theme w" "mounted (applyTheme t w) = mounted w"
  "systemPrefersDark (applyTheme t w) = systemPrefersDark w"
  "announcerRef (applyTheme t w) = announcerRef w"
  "toggleTheme_captured (applyTheme t w) = toggleTheme_captured w"
  "cleanup_system (applyTheme t w) = cleanup_system w"
  "cleanup_keyboard (applyTheme t w) = cleanup_keyboard w"
  "cleanup_announcer (applyTheme t w) = cleanup_announcer w"
  "window_defined (applyTheme t w) = window_defined w"
  "document_defined (applyTheme t w) = document_defined w"
  "matchMedia_defined (applyTheme t w) = matchMedia_defined w"
  "media_matches (applyTheme t w) = media_matches w"
  "media_addEventListener (applyTheme t w) = media_addEventListener w"
  "media_addListener (applyTheme t w) = media_addListener w"
  "storage_get_throws (applyTheme t w) = storage_get_throws w"
  "storage_set_throws (applyTheme t w) = storage_set_throws w"
  "body_children (applyTheme t w) = body_children w" "next_id (applyTheme t w) = next_id w"
  "listeners (applyTheme t w) = listeners w"
  by (cases "ToString t"; simp add: applyTheme_def Let_def case_prod_beta split: option.splits)+

lemma applyTheme_frame [simp]:
  "same_setup (applyTheme t w) w' = same_setup w w'"
  "ref_attached (applyTheme t w) = ref_attached w"
  by (simp_all add: same_setup_def ref_attached_def)

lemma applyTheme_storage_items:
  "storage_items (applyTheme t w) =
     (case ToString t of
        Inr s \<Rightarrow>
          if document_defined w \<and> window_defined w \<and> \<not> storage_set_throws w
          then (storage_items w)(storageKey THEME_CONFIG \<mapsto> s)
          else storage_items w
      | Inl error \<Rightarrow> storage_items w)"
  by (cases "ToString t"; simp add: applyTheme_def Let_def case_prod_beta split: option.splits)

lemma applyTheme_root_classList:
  "root_classList (applyTheme t w) =
     (if \<not> document_defined w then root_classList w
      else if t = Str ''dark''
        then (if ''dark'' \<in> set (root_classList w) then root_classList w
              else root_classList w @ [''dark''])
        else removeAll ''dark'' (root_classList w))"
  by (cases "ToString t"; simp add: applyTheme_def Let_def case_prod_beta split: option.splits)

lemma applyTheme_timers:
  "timers (applyTheme t w) =
     (if document_defined w
      then timers w @ [(RemoveTransition, transitionDuration THEME_CONFIG)] else timers w)"
  by (cases "ToString t"; simp add: applyTheme_def Let_def case_prod_beta split: option.splits)

lemma applyTheme_trace:
  "trace (applyTheme t w) =
     (if \<not> document_defined w then trace w
      else trace w @
        [StyleSetProperty ''--theme-transition'' ''background-color 0.2s ease-in-out'',
         if t = Str ''dark'' then ClassListAdd ''dark'' else ClassListRemove ''dark'',
         SetTimeout RemoveTransition (transitionDuration THEME_CONFIG)] @
        (case meta_theme_color w of
           Some old \<Rightarrow> [MetaSetAttribute ''content'' (if t = Str ''dark'' then ''#18181b'' else ''#ffffff'')]
         | None \<Rightarrow> []) @
        (case ToString t of
           Inr s \<Rightarrow>
             if window_defined w \<and> \<not> storage_set_throws w
             then [StorageSetItem (storageKey THEME_CONFIG) s]
             else [ConsoleWarn ''Failed to save theme preference:'']
         | Inl error \<Rightarrow> [ConsoleWarn ''Failed to save theme preference:'']))"
  by (cases "ToString t"; auto simp add: applyTheme_def Let_def case_prod_beta split: option.splits)

subsection \<open>\<^verbatim>\<open>announceThemeChange\<close>, \<^verbatim>\<open>setTheme\<close> and \<^verbatim>\<open>toggleTheme\<close>\<close>

lemma announceThemeChange_fields [simp]:
  "theme (snd (announceThemeChange t w)) = theme w"
  "mounted (snd (announceThemeChange t w)) = mounted w"
  "systemPrefersDark (snd (announceThemeChange t w)) = systemPrefersDark w"
  "toggleTheme_captured (snd (announceThemeChange t w)) = toggleTheme_captured w"
  "cleanup_system (snd (announceThemeChange t w)) = cleanup_system w"
  "cleanup_keyboard (snd (announceThemeChange t w)) = cleanup_keyboard w"
  "cleanup_announcer (snd (announceThemeChange t w)) = cleanup_announcer w"
  "window_defined (snd (announceThemeChange t w)) = window_defined w"
  "document_defined (snd (announceThemeChange t w)) = document_defined w"
  "matchMedia_defined (snd (announceThemeChange t w)) = matchMedia_defined w"
  "media_matches (snd (announceThemeChange t w)) = media_matches w"
  "media_addEventListener (snd (announceThemeChange t w)) = media_addEventListener w"
  "media_addListener (snd (announceThemeChange t w)) = media_addListener w"
  "storage_items (snd (announceThemeChange t w)) = storage_items w"
  "storage_get_throws (snd (announceThemeChange t w)) = storage_get_throws w"
  "storage_set_throws (snd (announceThemeChange t w)) = storage_set_throws w"
  "root_classList (snd (announceThemeChange t w)) = root_classList w"
  "root_style (snd (announceThemeChange t w)) = root_style w"
  "meta_theme_color (snd (announceThemeChange t w)) = meta_theme_color w"
  "listeners (snd (announceThemeChange t w)) = listeners w"
  by (cases "ToString t";
      simp add: announceThemeChange_def Let_def case_prod_beta split: option.splits)+

lemma announceThemeChange_frame [simp]:
  "same_setup (snd (announceThemeChange t w)) w' = same_setup w w'"
  by (simp add: same_setup_def)

text \<open>
  With a document, the ref (if set) attached and a value that has a string, the call
  returns, and does this:
\<close>

lemma announceThemeChange_returns:
  assumes "document_defined w" and "ref_attached w" and "ToString t = Inr s"
  shows "fst (announceThemeChange t w) = None"
    and "ref_attached (snd (announceThemeChange t w))"
    and "announcerRef (snd (announceThemeChange t w)) = Some (next_id w)"
    and "next_id (snd (announceThemeChange t w)) = Suc (next_id w)"
    and "timers (snd (announceThemeChange t w)) = timers w @ [(RemoveAnnouncer (next_id w), 1000)]"
    and "body_children (snd (announceThemeChange t w)) =
           filter (\<lambda>c. Some (fst c) \<noteq> announcerRef w) (body_children w) @
           [(next_id w, \<lparr>aria_live = ''polite'', aria_atomic = ''true'', className = ''sr-only'',
                          textContent = ''Theme changed to '' @ s @ '' mode''\<rparr>)]"
    and "trace (snd (announceThemeChange t w)) =
           trace w @
           (case announcerRef w of Some old \<Rightarrow> [BodyRemoveChild old] | None \<Rightarrow> []) @
           [BodyAppendChild (next_id w)
              \<lparr>aria_live = ''polite'', aria_atomic = ''true'', className = ''sr-only'',
               textContent = ''Theme changed to '' @ s @ '' mode''\<rparr>,
            SetTimeout (RemoveAnnouncer (next_id w)) 1000]"
  using assms
  by (auto simp add: announceThemeChange_def ref_attached_def Let_def case_prod_beta
      split: option.splits)

text \<open>
  \<^verbatim>\<open>setTheme\<close> of a value that is not a theme and has no string ends in the template
  literal of the warning and changes nothing.
\<close>

lemma setTheme_throws:
  assumes "\<not> valid_theme v" and "ToString v = Inl e"
  shows "setTheme v w = (Some e, w)"
  using assms by (simp add: setTheme_def valid_theme_def)

lemma setTheme_fields [simp]:
  "theme (snd (setTheme v w)) =
     (if valid_theme v then v
      else case ToString v of Inr s \<Rightarrow> defaultTheme THEME_CONFIG | Inl error \<Rightarrow> theme w)"
  "toggleTheme_captured (snd (setTheme v w)) = toggleTheme_captured w"
  "window_defined (snd (setTheme v w)) = window_defined w"
  "document_defined (snd (setTheme v w)) = document_defined w"
  "storage_get_throws (snd (setTheme v w)) = storage_get_throws w"
  "storage_set_throws (snd (setTheme v w)) = storage_set_throws w"
  "same_setup (snd (setTheme v w)) w' = same_setup w w'"
  by (cases "ToString v"; simp add: setTheme_def Let_def valid_theme_def)+

lemma setTheme_returns:
  assumes "document_defined w" and "ref_attached w"
  shows "fst (setTheme v w) =
           (if valid_theme v then None
            else case ToString v of Inr s \<Rightarrow> None | Inl error \<Rightarrow> Some error)"
    and "ref_attached (snd (setTheme v w))"
proof -
  have d: "ToString (defaultTheme THEME_CONFIG) = Inr ''light''"
    by (simp add: THEME_CONFIG_def)
  show "fst (setTheme v w) =
           (if valid_theme v then None
            else case ToString v of Inr s \<Rightarrow> None | Inl error \<Rightarrow> Some error)"
    using assms
    by (cases "ToString v")
      (auto simp add: setTheme_def Let_def valid_theme_def
        announceThemeChange_returns(1) [OF _ _ d]
        announceThemeChange_returns(1) [where s = "''light''"]
        announceThemeChange_returns(1) [where s = "''dark''"])
  show "ref_attached (snd (setTheme v w))"
    using assms
    by (cases "ToString v")
      (auto simp add: setTheme_def Let_def valid_theme_def
        announceThemeChange_returns(2) [OF _ _ d]
        announceThemeChange_returns(2) [where s = "''light''"]
        announceThemeChange_returns(2) [where s = "''dark''"])
qed

lemma setTheme_valid_returns:
  assumes "document_defined w" and "ref_attached w" and "valid_theme v"
  shows "fst (setTheme v w) = None"
  using assms by (simp add: setTheme_returns)

lemma setTheme_storage_items:
  "valid_theme v \<Longrightarrow>
   storage_items (snd (setTheme v w)) =
     (if document_defined w \<and> window_defined w \<and> \<not> storage_set_throws w
      then (storage_items w)(storageKey THEME_CONFIG \<mapsto> to_string v)
      else storage_items w)"
  by (auto simp add: setTheme_def Let_def valid_theme_def applyTheme_storage_items)

lemma setTheme_root_classList:
  "document_defined w \<Longrightarrow> valid_theme v \<Longrightarrow>
   ''dark'' \<in> set (root_classList (snd (setTheme v w))) \<longleftrightarrow> v = Str ''dark''"
  by (auto simp add: setTheme_def Let_def valid_theme_def applyTheme_root_classList)

lemma toggleTheme_fields [simp]:
  "theme (snd (toggleTheme c w)) = (if c = Str ''dark'' then Str ''light'' else Str ''dark'')"
  "toggleTheme_captured (snd (toggleTheme c w)) = toggleTheme_captured w"
  "same_setup (snd (toggleTheme c w)) w' = same_setup w w'"
  by (simp_all add: toggleTheme_def valid_theme_def)

lemma toggleTheme_returns:
  assumes "document_defined w" and "ref_attached w"
  shows "fst (toggleTheme c w) = None" and "ref_attached (snd (toggleTheme c w))"
  using assms by (simp_all add: toggleTheme_def setTheme_returns valid_theme_def)

text \<open>
  A \<^verbatim>\<open>toggleTheme\<close> closure always sets the opposite of the theme it has captured: called
  twice with no render between, the same closure sets the same theme twice.
\<close>

lemma toggleTheme_same_closure_twice:
  "theme (snd (toggleTheme c (snd (toggleTheme c w)))) = theme (snd (toggleTheme c w))"
  by simp

subsection \<open>The handlers, the timers and the render\<close>

lemma handleChange_fields [simp]:
  "same_setup (handleChange m w) w' = same_setup w w'"
  "theme (handleChange m w) =
     (if localStorage_getItem (storageKey THEME_CONFIG) w \<in> {Inr None, Inr (Some [])}
      then (if m then Str ''dark'' else Str ''light'') else theme w)"
  by (simp_all add: handleChange_def Let_def case_prod_beta localStorage_getItem_def valid_theme_def
      split: sum.splits option.splits)

lemma handleChange_attached:
  assumes "document_defined w" and "ref_attached w"
  shows "ref_attached (handleChange m w)"
  using assms
  by (simp add: handleChange_def Let_def case_prod_beta setTheme_returns
      split: sum.splits option.splits)

lemma handleKeyDown_fields [simp]:
  "same_setup (snd (handleKeyDown c e w)) w' = same_setup w w'"
  "theme (snd (handleKeyDown c e w)) =
     (if (ctrlKey e \<or> metaKey e) \<and> shiftKey e \<and> key e = ''T''
      then (if c = Str ''dark'' then Str ''light'' else Str ''dark'') else theme w)"
  by (auto simp add: handleKeyDown_def)

lemma handleKeyDown_returns:
  assumes "document_defined w" and "ref_attached w"
  shows "fst (handleKeyDown c e w) = None" and "ref_attached (snd (handleKeyDown c e w))"
  using assms by (simp_all add: handleKeyDown_def toggleTheme_returns)

lemma run_timer_fields [simp]:
  "theme (run_timer cb w) = theme w"
  "same_setup (run_timer cb w) w' = same_setup w w'"
  by (cases cb; simp add: Let_def)+

lemma run_timer_attached: "ref_attached w \<Longrightarrow> ref_attached (run_timer cb w)"
  by (cases cb) (auto simp add: ref_attached_def Let_def)

lemma fire_timer_fields [simp]:
  "theme (fire_timer i w) = theme w"
  "same_setup (fire_timer i w) w' = same_setup w w'"
  by (simp_all add: fire_timer_def split: list.splits)

lemma fire_timer_attached: "ref_attached w \<Longrightarrow> ref_attached (fire_timer i w)"
  by (simp add: fire_timer_def run_timer_attached split: list.splits)

lemma rerender_fields [simp]:
  "theme (rerender w) = theme w"
  "mounted (rerender w) = mounted w"
  "storage_items (rerender w) = storage_items w"
  "root_classList (rerender w) = root_classList w"
  by (simp_all add: rerender_def effect_keyboard_def Let_def split: option.splits cleanup.splits)

lemma rerender_unsubscribed: "cleanup_keyboard w = None \<Longrightarrow> rerender w = w"
  by (simp add: rerender_def)

lemma rerender_subscribed:
  assumes "document_defined w" and "subscribed_as c w"
  shows "subscribed_as (theme w) (rerender w)"
    and "document_defined (rerender w)"
    and "ref_attached (rerender w) = ref_attached w"
    and "toggleTheme_captured (rerender w) = theme w"
  using assms
  by (auto simp add: rerender_def subscribed_as_def effect_keyboard_def Let_def)

lemma rerender_same:
  assumes "subscribed_as (theme w) w" and "toggleTheme_captured w = theme w"
  shows "rerender w = w"
proof -
  have "w\<lparr>toggleTheme_captured := theme w\<rparr> = w"
    using assms(2) by (cases w) simp
  then show ?thesis
    using assms by (simp add: rerender_def subscribed_as_def Let_def)
qed

subsection \<open>Events reach the two handlers and nothing else\<close>

lemma dispatch_subscribed:
  assumes "subscribed_as c w"
  shows "dispatch ev w =
    (case ev of
       Change m \<Rightarrow> if cleanup_system w = None then w else handleChange m w
     | KeyDown e \<Rightarrow> (case handleKeyDown c e w of
                       (None, w1) \<Rightarrow> w1
                     | (Some error, w1) \<Rightarrow> emit (Uncaught error) w1)
     | Storage e \<Rightarrow> w)"
  using assms
  by (cases ev) (auto simp add: dispatch_def deliver_def subscribed_as_def)

lemma dispatch_no_listeners: "listeners w = [] \<Longrightarrow> dispatch ev w = w"
  by (simp add: dispatch_def)

subsection \<open>The invariant\<close>

lemma perform_consistent:
  assumes "consistent w"
  shows "same_setup (perform a w) w"
    and "document_defined (perform a w)"
    and "ref_attached (perform a w)"
    and "valid_theme (theme (perform a w))"
    and "subscribed_as (theme w) (perform a w)"
proof -
  have d: "document_defined w" and r: "ref_attached w" and v: "valid_theme (theme w)"
    and s: "subscribed_as (theme w) w"
    using assms by (simp_all add: consistent_def)
  have s': "subscribed_as (theme w) (w\<lparr>media_matches := m\<rparr>)"
       "subscribed_as (theme w) (w\<lparr>storage_items := f\<rparr>)" for m f
    using s by simp_all
  show frame: "same_setup (perform a w) w"
    using d r s'
    by (cases a) (simp_all add: dispatch_subscribed [where c = "theme w"] case_prod_beta
        handleKeyDown_returns)
  show "subscribed_as (theme w) (perform a w)"
    using s subscribed_as_cong [OF frame] by simp
  show "document_defined (perform a w)"
    using d frame by (simp add: same_setup_document)
  show "ref_attached (perform a w)"
    using d r s'
    by (cases a)
      (simp_all add: setTheme_returns toggleTheme_returns fire_timer_attached
        dispatch_subscribed [where c = "theme w"] handleChange_attached handleKeyDown_returns
        case_prod_beta)
  show "valid_theme (theme (perform a w))"
    using d r s' v
    by (cases a)
      (auto simp add: dispatch_subscribed [where c = "theme w"] handleKeyDown_returns
        case_prod_beta valid_theme_def THEME_CONFIG_def split: sum.splits)
qed

lemma step_consistent:
  assumes "consistent w"
  shows "consistent (step a w)"
  using perform_consistent [OF assms, of a] rerender_subscribed [of "perform a w" "theme w"]
  by (simp add: consistent_def step_def)

subsection \<open>The mount\<close>

lemma detectSystemTheme_fields [simp]:
  "fst (detectSystemTheme w) =
     (if \<not> window_defined w then Inr (defaultTheme THEME_CONFIG)
      else if \<not> matchMedia_defined w then Inl TypeError
      else Inr (if media_matches w then Str ''dark'' else Str ''light''))"
  "theme (snd (detectSystemTheme w)) = theme w"
  "mounted (snd (detectSystemTheme w)) = mounted w"
  "announcerRef (snd (detectSystemTheme w)) = announcerRef w"
  "toggleTheme_captured (snd (detectSystemTheme w)) = toggleTheme_captured w"
  "body_children (snd (detectSystemTheme w)) = body_children w"
  "document_defined (snd (detectSystemTheme w)) = document_defined w"
  "window_defined (snd (detectSystemTheme w)) = window_defined w"
  "matchMedia_defined (snd (detectSystemTheme w)) = matchMedia_defined w"
  "media_matches (snd (detectSystemTheme w)) = media_matches w"
  "storage_set_throws (snd (detectSystemTheme w)) = storage_set_throws w"
  "storage_get_throws (snd (detectSystemTheme w)) = storage_get_throws w"
  "storage_items (snd (detectSystemTheme w)) = storage_items w"
  "same_setup (snd (detectSystemTheme w)) w' = same_setup w w'"
  by (simp_all add: detectSystemTheme_def Let_def)

lemma effect_init_returns:
  "fst (effect_init w) =
     (if window_defined w \<and> \<not> matchMedia_defined w \<and>
         localStorage_getItem (storageKey THEME_CONFIG) w \<notin> {Inr (Some ''light''), Inr (Some ''dark'')}
      then Some TypeError else None)"
  by (auto simp add: effect_init_def Let_def case_prod_beta split: sum.splits option.splits)

lemma effect_init_theme:
  "theme (snd (effect_init w)) =
     (case localStorage_getItem (storageKey THEME_CONFIG) w of
        Inr (Some s) \<Rightarrow>
          if s = ''light'' \<or> s = ''dark'' then Str s
          else (case fst (detectSystemTheme w) of Inr t \<Rightarrow> t | Inl error \<Rightarrow> theme w)
      | Inr None \<Rightarrow> (case fst (detectSystemTheme w) of Inr t \<Rightarrow> t | Inl error \<Rightarrow> theme w)
      | Inl error \<Rightarrow> (case fst (detectSystemTheme w) of Inr t \<Rightarrow> t | Inl error \<Rightarrow> theme w))"
  by (auto simp add: effect_init_def Let_def case_prod_beta split: sum.splits option.splits)

lemma effect_init_fields [simp]:
  "announcerRef (snd (effect_init w)) = announcerRef w"
  "toggleTheme_captured (snd (effect_init w)) = toggleTheme_captured w"
  "body_children (snd (effect_init w)) = body_children w"
  "same_setup (snd (effect_init w)) w' = same_setup w w'"
  "mounted (snd (effect_init w)) = (fst (effect_init w) = None \<or> mounted w)"
  "window_defined (snd (effect_init w)) = window_defined w"
  "document_defined (snd (effect_init w)) = document_defined w"
  "matchMedia_defined (snd (effect_init w)) = matchMedia_defined w"
  by (simp_all add: effect_init_def Let_def case_prod_beta split: sum.splits option.splits)

lemma effect_init_valid: "valid_theme (theme w) \<Longrightarrow> valid_theme (theme (snd (effect_init w)))"
  by (auto simp add: effect_init_theme valid_theme_def THEME_CONFIG_def
      split: sum.splits option.splits)

lemma effect_init_storage_items:
  assumes "fst (effect_init w) = None"
  shows "storage_items (snd (effect_init w)) =
     (if document_defined w \<and> window_defined w \<and> \<not> storage_set_throws w
      then (storage_items w)(storageKey THEME_CONFIG \<mapsto> to_string (theme (snd (effect_init w))))
      else storage_items w)"
proof -
  have ok: "window_defined w \<Longrightarrow> \<not> matchMedia_defined w \<Longrightarrow>
      localStorage_getItem (storageKey THEME_CONFIG) w = Inr (Some ''light'') \<or>
      localStorage_getItem (storageKey THEME_CONFIG) w = Inr (Some ''dark'')"
    using assms by (simp add: effect_init_returns split: if_splits)
  show ?thesis
  proof (cases "localStorage_getItem (storageKey THEME_CONFIG) w")
    case (Inl error)
    then show ?thesis
      using ok
      by (auto simp add: effect_init_def Let_def case_prod_beta applyTheme_storage_items
          THEME_CONFIG_def)
  next
    case (Inr saved)
    then show ?thesis
      using ok
      by (cases saved)
        (auto simp add: effect_init_def Let_def case_prod_beta applyTheme_storage_items
          THEME_CONFIG_def)
  qed
qed

lemma effect_system_fields [simp]:
  "fst (effect_system w) =
     (if window_defined w \<and> \<not> matchMedia_defined w then Some TypeError else None)"
  "theme (snd (effect_system w)) = theme w"
  "mounted (snd (effect_system w)) = mounted w"
  "storage_items (snd (effect_system w)) = storage_items w"
  "document_defined (snd (effect_system w)) = document_defined w"
  "toggleTheme_captured (snd (effect_system w)) = toggleTheme_captured w"
  by (simp_all add: effect_system_def)

lemma effect_keyboard_fields [simp]:
  "fst (effect_keyboard c w) = (if document_defined w then None else Some ReferenceError)"
  "theme (snd (effect_keyboard c w)) = theme w"
  "mounted (snd (effect_keyboard c w)) = mounted w"
  "storage_items (snd (effect_keyboard c w)) = storage_items w"
  by (simp_all add: effect_keyboard_def)

lemma mount_fields [simp]:
  "theme (snd (mount w)) = theme (snd (effect_init w))"
  "storage_items (snd (mount w)) = storage_items (snd (effect_init w))"
  "mounted (snd (mount w)) = mounted (snd (effect_init w))"
  by (simp_all add: mount_def case_prod_beta effect_announcer_def split: option.splits)

lemma mount_returns:
  "fst (mount w) = None \<longleftrightarrow> document_defined w \<and> (window_defined w \<longrightarrow> matchMedia_defined w)"
  by (auto simp add: mount_def case_prod_beta effect_init_returns split: option.splits if_splits)

lemma mount_consistent:
  assumes "initial w" and "mount w = (None, w')"
  shows "consistent w'"
proof -
  let ?w1 = "snd (effect_init w)"
  let ?w2 = "snd (effect_system ?w1)"
  let ?w4 = "effect_announcer (snd (effect_keyboard (toggleTheme_captured w) ?w2))"
  have ok: "document_defined w" "window_defined w \<longrightarrow> matchMedia_defined w"
    using assms(2) mount_returns [of w] by simp_all
  have frame: "same_setup ?w1 w"
    by simp
  have w': "w' = rerender ?w4"
    using assms(2) by (auto simp add: mount_def case_prod_beta split: option.splits)
  have th: "theme ?w4 = theme ?w1"
    by (simp add: effect_announcer_def)
  have d4: "document_defined ?w4"
    using ok frame
    by (simp add: effect_announcer_def effect_keyboard_def effect_system_def same_setup_def)
  have r4: "ref_attached ?w4"
    using assms(1)
    by (simp add: effect_announcer_def effect_keyboard_def effect_system_def ref_attached_def
        initial_def)
  have s4: "subscribed_as (toggleTheme_captured w) ?w4"
    using assms(1) ok frame
    by (simp add: effect_announcer_def effect_keyboard_def effect_system_def subscribed_as_def
        initial_def same_setup_def)
  have v: "valid_theme (theme ?w1)"
    using assms(1) by (intro effect_init_valid) (simp add: initial_def valid_theme_def THEME_CONFIG_def)
  show ?thesis
    using rerender_subscribed [OF d4 s4] th r4 v
    by (simp add: w' consistent_def)
qed

lemma reachable_consistent: "reachable w \<Longrightarrow> consistent w"
  by (induction rule: reachable.induct) (auto intro: mount_consistent step_consistent)

lemma reachable_after_mount:
  assumes "initial w" and "document_defined w" and "window_defined w \<longrightarrow> matchMedia_defined w"
  shows "reachable (snd (mount w))"
proof -
  have "mount w = (None, snd (mount w))"
    using assms(2,3) mount_returns [of w] by (metis prod.collapse)
  with assms(1) show ?thesis
    by (rule reachable_mount)
qed

lemma fresh_browser_mounts:
  "initial fresh_browser" "document_defined fresh_browser"
  "window_defined fresh_browser \<longrightarrow> matchMedia_defined fresh_browser"
  "initial (fresh_browser\<lparr>storage_set_throws := True\<rparr>)"
  "document_defined (fresh_browser\<lparr>storage_set_throws := True\<rparr>)"
  "window_defined (fresh_browser\<lparr>storage_set_throws := True\<rparr>) \<longrightarrow>
     matchMedia_defined (fresh_browser\<lparr>storage_set_throws := True\<rparr>)"
  by (simp_all add: initial_def fresh_browser_def THEME_CONFIG_def)

text \<open>
  In a window without \<^verbatim>\<open>matchMedia\<close> and with no valid theme stored, \<^verbatim>\<open>detectSystemTheme\<close>
  throws inside the \<^verbatim>\<open>try\<close> (or the read of the storage does), the \<^verbatim>\<open>catch\<close> logs its
  warning and calls \<^verbatim>\<open>detectSystemTheme\<close> again, and that second exception leaves the
  effect.
\<close>

lemma detectSystemTheme_throws:
  "window_defined w \<Longrightarrow> \<not> matchMedia_defined w \<Longrightarrow> detectSystemTheme w = (Inl TypeError, w)"
  by (simp add: detectSystemTheme_def)

lemma effect_init_throws:
  assumes "window_defined w" and "\<not> matchMedia_defined w"
    and "localStorage_getItem (storageKey THEME_CONFIG) w \<notin> {Inr (Some ''light''), Inr (Some ''dark'')}"
  shows "effect_init w = (Some TypeError, console_warn ''Failed to load theme preference:'' w)"
proof (cases "localStorage_getItem (storageKey THEME_CONFIG) w")
  case (Inl error)
  then show ?thesis
    using assms(1,2) by (simp add: effect_init_def Let_def detectSystemTheme_throws)
next
  case (Inr saved)
  then show ?thesis
    using assms by (cases saved) (auto simp add: effect_init_def Let_def detectSystemTheme_throws)
qed

lemma mount_throws:
  assumes "window_defined w" and "\<not> matchMedia_defined w"
    and "localStorage_getItem (storageKey THEME_CONFIG) w \<notin> {Inr (Some ''light''), Inr (Some ''dark'')}"
  shows "mount w = (Some TypeError, console_warn ''Failed to load theme preference:'' w)"
  by (simp add: mount_def effect_init_throws [OF assms])

subsection \<open>What a system-preference event does to the page\<close>

lemma localStorage_getItem_update [simp]:
  "localStorage_getItem k (media_matches_update f w) = localStorage_getItem k w"
  "localStorage_getItem k (setSystemPrefersDark b w) = localStorage_getItem k w"
  by (simp_all add: localStorage_getItem_def)

lemma handleChange_root_classList:
  assumes "document_defined w"
    and "localStorage_getItem (storageKey THEME_CONFIG) w \<in> {Inr None, Inr (Some [])}"
  shows "''dark'' \<in> set (root_classList (handleChange m w)) \<longleftrightarrow> m"
  using assms
  by (auto simp add: handleChange_def Let_def case_prod_beta setTheme_root_classList valid_theme_def
      split: option.splits)

lemma handleChange_kept:
  assumes "localStorage_getItem (storageKey THEME_CONFIG) w \<notin> {Inr None, Inr (Some [])}"
  shows "root_classList (handleChange m w) = root_classList w"
    and "storage_items (handleChange m w) = storage_items w"
  using assms
  by (auto simp add: handleChange_def Let_def split: sum.splits option.splits)

lemma system_listener_registered:
  assumes "subscribed_as c w" and "window_defined w"
    and "media_addEventListener w \<or> media_addListener w"
  shows "cleanup_system w \<noteq> None"
  using assms by (auto simp add: subscribed_as_def)

subsection \<open>The effects of one \<^verbatim>\<open>setTheme\<close>, and the teardown\<close>

lemma setTheme_effects:
  assumes "document_defined w" and "ref_attached w" and "valid_theme t"
  shows "trace (snd (setTheme t w)) =
     trace w @
     [SetThemeState t,
      StyleSetProperty ''--theme-transition'' ''background-color 0.2s ease-in-out'',
      if t = Str ''dark'' then ClassListAdd ''dark'' else ClassListRemove ''dark'',
      SetTimeout RemoveTransition (transitionDuration THEME_CONFIG)] @
     (case meta_theme_color w of
        Some old \<Rightarrow> [MetaSetAttribute ''content'' (if t = Str ''dark'' then ''#18181b'' else ''#ffffff'')]
      | None \<Rightarrow> []) @
     (if window_defined w \<and> \<not> storage_set_throws w
      then [StorageSetItem (storageKey THEME_CONFIG) (to_string t)]
      else [ConsoleWarn ''Failed to save theme preference:'']) @
     (case announcerRef w of Some old \<Rightarrow> [BodyRemoveChild old] | None \<Rightarrow> []) @
     [BodyAppendChild (next_id w)
        \<lparr>aria_live = ''polite'', aria_atomic = ''true'', className = ''sr-only'',
         textContent = ''Theme changed to '' @ to_string t @ '' mode''\<rparr>,
      SetTimeout (RemoveAnnouncer (next_id w)) 1000]"
    and "timers (snd (setTheme t w)) =
     timers w @ [(RemoveTransition, transitionDuration THEME_CONFIG), (RemoveAnnouncer (next_id w), 1000)]"
    and "next_id w \<in> fst ` set (body_children (snd (setTheme t w)))"
proof -
  let ?w = "applyTheme t (setThemeState t w)"
  have e: "setTheme t w = announceThemeChange t ?w"
    using assms(3) by (auto simp add: setTheme_def Let_def valid_theme_def)
  have s: "ToString t = Inr (to_string t)"
    using assms(3) by (rule valid_theme_ToString)
  have d: "document_defined ?w" and r: "ref_attached ?w"
    using assms(1,2) by simp_all
  note a = announceThemeChange_returns [OF d r s]
  show "trace (snd (setTheme t w)) =
     trace w @
     [SetThemeState t,
      StyleSetProperty ''--theme-transition'' ''background-color 0.2s ease-in-out'',
      if t = Str ''dark'' then ClassListAdd ''dark'' else ClassListRemove ''dark'',
      SetTimeout RemoveTransition (transitionDuration THEME_CONFIG)] @
     (case meta_theme_color w of
        Some old \<Rightarrow> [MetaSetAttribute ''content'' (if t = Str ''dark'' then ''#18181b'' else ''#ffffff'')]
      | None \<Rightarrow> []) @
     (if window_defined w \<and> \<not> storage_set_throws w
      then [StorageSetItem (storageKey THEME_CONFIG) (to_string t)]
      else [ConsoleWarn ''Failed to save theme preference:'']) @
     (case announcerRef w of Some old \<Rightarrow> [BodyRemoveChild old] | None \<Rightarrow> []) @
     [BodyAppendChild (next_id w)
        \<lparr>aria_live = ''polite'', aria_atomic = ''true'', className = ''sr-only'',
         textContent = ''Theme changed to '' @ to_string t @ '' mode''\<rparr>,
      SetTimeout (RemoveAnnouncer (next_id w)) 1000]"
    using assms(1) by (simp add: e a(7) applyTheme_trace s)
  show "timers (snd (setTheme t w)) =
     timers w @ [(RemoveTransition, transitionDuration THEME_CONFIG), (RemoveAnnouncer (next_id w), 1000)]"
    using assms(1) by (simp add: e a(5) applyTheme_timers)
  show "next_id w \<in> fst ` set (body_children (snd (setTheme t w)))"
    by (simp add: e a(6))
qed

lemma announcer_removed_by_timer:
  "document_defined w \<Longrightarrow> a \<notin> fst ` set (body_children (run_timer (RemoveAnnouncer a) w))"
  by (auto simp add: Let_def)

lemma run_cleanup_fields [simp]:
  "theme (run_cleanup c w) = theme w"
  "cleanup_system (run_cleanup c w) = cleanup_system w"
  "cleanup_keyboard (run_cleanup c w) = cleanup_keyboard w"
  "cleanup_announcer (run_cleanup c w) = cleanup_announcer w"
  by (cases c; simp split: option.splits)+

lemma detach_announcer:
  "set_option (announcerRef (run_cleanup DetachAnnouncer w)) \<inter>
     fst ` set (body_children (run_cleanup DetachAnnouncer w)) = {}"
  by (cases "announcerRef w") auto

lemma unmount_consistent:
  assumes "consistent w"
  shows "listeners (unmount w) = []"
    and "cleanup_system (unmount w) = None"
    and "cleanup_keyboard (unmount w) = None"
    and "cleanup_announcer (unmount w) = None"
    and "theme (unmount w) = theme w"
    and "set_option (announcerRef (unmount w)) \<inter> fst ` set (body_children (unmount w)) = {}"
proof -
  let ?w2 = "run_cleanup (DocumentRemoveKeyDown (theme w))
               (case cleanup_system w of Some c \<Rightarrow> run_cleanup c w | None \<Rightarrow> w)"
  have k: "cleanup_keyboard w = Some (DocumentRemoveKeyDown (theme w))"
    and a: "cleanup_announcer w = Some DetachAnnouncer"
    using assms by (simp_all add: consistent_def subscribed_as_def)
  have u: "unmount w = (run_cleanup DetachAnnouncer ?w2)
             \<lparr>cleanup_system := None, cleanup_keyboard := None, cleanup_announcer := None\<rparr>"
    using k a
    by (cases "cleanup_system w") (simp_all add: unmount_def Let_def del: run_cleanup.simps)
  show "cleanup_system (unmount w) = None" "cleanup_keyboard (unmount w) = None"
    "cleanup_announcer (unmount w) = None"
    by (simp_all add: u del: run_cleanup.simps)
  show "set_option (announcerRef (unmount w)) \<inter> fst ` set (body_children (unmount w)) = {}"
    using detach_announcer [of ?w2] by (simp add: u del: run_cleanup.simps)
  show "listeners (unmount w) = []"
    using assms
    by (auto simp add: u consistent_def subscribed_as_def case_prod_beta split: option.splits)
  show "theme (unmount w) = theme w"
    by (simp add: u split: option.splits del: run_cleanup.simps)
qed

lemma foreign_write_ignored:
  assumes "consistent w"
  shows "step (OtherContextWrites k v) w = w\<lparr>storage_items := (storage_items w)(k := v)\<rparr>"
proof -
  let ?w = "w\<lparr>storage_items := (storage_items w)(k := v)\<rparr>"
  have s: "subscribed_as (theme ?w) ?w" and c: "toggleTheme_captured ?w = theme ?w"
    using assms by (simp_all add: consistent_def)
  then have "perform (OtherContextWrites k v) w = ?w"
    by (simp add: dispatch_subscribed [OF s])
  then show ?thesis
    using rerender_same [OF s c] by (simp add: step_def del: perform.simps)
qed

section \<open>The claims\<close>

text \<open>
  The specification's \<^verbatim>\<open>getEffectiveTheme()\<close> is the field \<^verbatim>\<open>theme\<close> of what the hook returns,
  here \<open>theme w\<close>. \<open>step\<close> runs one call or one event and the render that follows it; the
  \<^verbatim>\<open>toggleTheme\<close> a consumer holds after a render is the closure that render has made,
  which has captured \<open>toggleTheme_captured w\<close>.
\<close>

text \<open>
  C4. For each of the two valid themes \<open>t\<close>, after \<^verbatim>\<open>setTheme(t)\<close> the effective theme is
  \<open>t\<close>: in the state the call leaves behind, and after the render that follows.
\<close>

theorem setTheme_valid_roundtrip:
  "valid_theme t \<Longrightarrow>
   theme (snd (setTheme t w)) = t \<and> theme (step (CallSetTheme t) w) = t"
  by (simp add: step_def)

theorem setTheme_valid_roundtrip_witness:
  "valid_theme (Str ''dark'') \<and> valid_theme (Str ''light'') \<and>
   theme (snd (setTheme (Str ''dark'') (snd (mount fresh_browser)))) = Str ''dark'' \<and>
   theme (step (CallSetTheme (Str ''dark'')) (snd (mount fresh_browser))) = Str ''dark'' \<and>
   theme (step (CallSetTheme (Str ''light''))
            (step (CallSetTheme (Str ''dark'')) (snd (mount fresh_browser)))) = Str ''light''"
  using setTheme_valid_roundtrip [of "Str ''dark''" "snd (mount fresh_browser)"]
    setTheme_valid_roundtrip [of "Str ''light''"
      "step (CallSetTheme (Str ''dark'')) (snd (mount fresh_browser))"]
  by (simp add: valid_theme_def)

text \<open>
  C5, as the specification has it: two calls of \<^verbatim>\<open>toggleTheme()\<close> in succession give back
  the effective theme they started from. \<^verbatim>\<open>toggleTheme\<close> is a \<^verbatim>\<open>useCallback\<close> closure over
  the \<^verbatim>\<open>theme\<close> of the render that made it (lines 139-142), and it computes the opposite of
  that captured value, not of the state at the time of the call. Two calls of the same
  closure with no render between them (two calls in one event handler) both set the
  opposite of the captured theme: on the instance mounted in a fresh browser, whose theme
  is light, the theme after the two calls is dark.
\<close>

theorem toggleTheme_twice_same_closure:
  "theme (snd (mount fresh_browser)) = Str ''light'' \<and>
   toggleTheme_captured (snd (mount fresh_browser)) = Str ''light'' \<and>
   theme (snd (toggleTheme (toggleTheme_captured (snd (mount fresh_browser)))
            (snd (toggleTheme (toggleTheme_captured (snd (mount fresh_browser)))
                   (snd (mount fresh_browser)))))) = Str ''dark'' \<and>
   theme (snd (toggleTheme (toggleTheme_captured (snd (mount fresh_browser)))
            (snd (toggleTheme (toggleTheme_captured (snd (mount fresh_browser)))
                   (snd (mount fresh_browser)))))) \<noteq> theme (snd (mount fresh_browser))"
  by code_simp

text \<open>
  C5, amended. On a mounted instance the \<^verbatim>\<open>toggleTheme\<close> of the latest render has captured
  the current effective theme, so calling it is \<^verbatim>\<open>setTheme\<close> of the opposite of the current
  effective theme; and two toggles, each followed by its render and the second made with
  the callback of that render (as the toggle button and the keyboard handler make them),
  give back the effective theme they started from. Two calls of one and the same closure
  with no render between them do not: the second call sets what the first has set, and the
  effective theme ends as the opposite of the one they started from.
\<close>

theorem toggleTheme_involution:
  "reachable w \<Longrightarrow>
   toggleTheme (toggleTheme_captured w) w =
     setTheme (if theme w = Str ''dark'' then Str ''light'' else Str ''dark'') w \<and>
   step CallToggleTheme w =
     step (CallSetTheme (if theme w = Str ''dark'' then Str ''light'' else Str ''dark'')) w \<and>
   toggleTheme_captured (step CallToggleTheme w) = theme (step CallToggleTheme w) \<and>
   theme (step CallToggleTheme w) \<noteq> theme w \<and>
   theme (step CallToggleTheme (step CallToggleTheme w)) = theme w \<and>
   theme (snd (toggleTheme (toggleTheme_captured w) (snd (toggleTheme (toggleTheme_captured w) w)))) =
     theme (snd (toggleTheme (toggleTheme_captured w) w)) \<and>
   theme (snd (toggleTheme (toggleTheme_captured w) (snd (toggleTheme (toggleTheme_captured w) w)))) \<noteq>
     theme w"
proof -
  assume r: "reachable w"
  then have c: "toggleTheme_captured w = theme w" and v: "valid_theme (theme w)"
    using reachable_consistent [of w] by (simp_all add: consistent_def)
  have r': "reachable (step CallToggleTheme w)"
    using r by (rule reachable_step)
  then have c': "toggleTheme_captured (step CallToggleTheme w) = theme (step CallToggleTheme w)"
    using reachable_consistent [of "step CallToggleTheme w"] by (simp add: consistent_def)
  have 1: "toggleTheme (toggleTheme_captured w) w =
     setTheme (if theme w = Str ''dark'' then Str ''light'' else Str ''dark'') w"
    by (simp add: toggleTheme_def c)
  then have 2: "step CallToggleTheme w =
     step (CallSetTheme (if theme w = Str ''dark'' then Str ''light'' else Str ''dark'')) w"
    by (simp add: step_def)
  have t1: "theme (step CallToggleTheme w) =
     (if theme w = Str ''dark'' then Str ''light'' else Str ''dark'')"
    by (simp add: step_def c)
  have 4: "theme (step CallToggleTheme w) \<noteq> theme w"
    using v by (auto simp add: t1 valid_theme_def)
  have "theme (step CallToggleTheme (step CallToggleTheme w)) =
     (if theme (step CallToggleTheme w) = Str ''dark'' then Str ''light'' else Str ''dark'')"
    using c' by (simp add: step_def [of CallToggleTheme "step CallToggleTheme w"])
  then have 5: "theme (step CallToggleTheme (step CallToggleTheme w)) = theme w"
    using v by (auto simp add: t1 valid_theme_def)
  have 6: "theme (snd (toggleTheme (toggleTheme_captured w) (snd (toggleTheme (toggleTheme_captured w) w)))) =
     theme (snd (toggleTheme (toggleTheme_captured w) w))"
    by simp
  have 7: "theme (snd (toggleTheme (toggleTheme_captured w) (snd (toggleTheme (toggleTheme_captured w) w)))) \<noteq>
     theme w"
    using v by (auto simp add: c valid_theme_def)
  from 1 2 c' 4 5 6 7 show ?thesis
    by (intro conjI)
qed

theorem toggleTheme_involution_witness:
  "reachable (snd (mount fresh_browser)) \<and>
   theme (snd (mount fresh_browser)) = Str ''light'' \<and>
   theme (step CallToggleTheme (snd (mount fresh_browser))) = Str ''dark'' \<and>
   toggleTheme_captured (step CallToggleTheme (snd (mount fresh_browser))) = Str ''dark'' \<and>
   theme (step CallToggleTheme (step CallToggleTheme (snd (mount fresh_browser)))) = Str ''light''"
proof -
  have r: "reachable (snd (mount fresh_browser))"
    by (rule reachable_after_mount) (rule fresh_browser_mounts)+
  have l: "theme (snd (mount fresh_browser)) = Str ''light''"
    by code_simp
  have d: "theme (step CallToggleTheme (snd (mount fresh_browser))) = Str ''dark''"
    by code_simp
  note c = toggleTheme_involution [OF r]
  from c have "toggleTheme_captured (step CallToggleTheme (snd (mount fresh_browser))) =
        theme (step CallToggleTheme (snd (mount fresh_browser)))"
    by blast
  with d have k: "toggleTheme_captured (step CallToggleTheme (snd (mount fresh_browser))) = Str ''dark''"
    by (simp only:)
  from c have "theme (step CallToggleTheme (step CallToggleTheme (snd (mount fresh_browser)))) =
        theme (snd (mount fresh_browser))"
    by blast
  with l have t: "theme (step CallToggleTheme (step CallToggleTheme (snd (mount fresh_browser)))) =
        Str ''light''"
    by (simp only:)
  from r l d k t show ?thesis
    by (intro conjI)
qed

text \<open>
  C2. The theme the mount ends with is, in this order of precedence: the stored value when
  the storage can be read and holds exactly \<^verbatim>\<open>light\<close> or \<^verbatim>\<open>dark\<close>, whatever the system asks
  for; otherwise, in a window that has \<^verbatim>\<open>matchMedia\<close>, the system preference, dark when
  the media query matches and light when it does not; and, where there is no window to ask
  (and so no storage either), the configured default. In each of these cases the instance
  is marked mounted. In a window without \<^verbatim>\<open>matchMedia\<close> that holds no valid stored theme the
  configured default is not what the mount ends with: it does not end. \<^verbatim>\<open>detectSystemTheme\<close>
  throws a TypeError (line 49), the \<^verbatim>\<open>catch\<close> of the effect calls it again (line 162), and
  that exception leaves the effect with nothing applied, nothing stored, the instance not
  marked mounted, and the warning of the \<^verbatim>\<open>catch\<close> as the only effect. The mount as a whole
  returns exactly when there is a document and the window, if there is one, has
  \<^verbatim>\<open>matchMedia\<close>.
\<close>

theorem initial_theme_precedence:
  "(localStorage_getItem (storageKey THEME_CONFIG) w = Inr (Some s) \<and> valid_theme (Str s) \<longrightarrow>
      theme (snd (mount w)) = Str s \<and> mounted (snd (mount w))) \<and>
   ((\<forall>s. localStorage_getItem (storageKey THEME_CONFIG) w = Inr (Some s) \<longrightarrow> \<not> valid_theme (Str s)) \<and>
    window_defined w \<and> matchMedia_defined w \<longrightarrow>
      theme (snd (mount w)) = (if media_matches w then Str ''dark'' else Str ''light'') \<and>
      mounted (snd (mount w))) \<and>
   (\<not> window_defined w \<longrightarrow>
      theme (snd (mount w)) = defaultTheme THEME_CONFIG \<and> mounted (snd (mount w))) \<and>
   ((\<forall>s. localStorage_getItem (storageKey THEME_CONFIG) w = Inr (Some s) \<longrightarrow> \<not> valid_theme (Str s)) \<and>
    window_defined w \<and> \<not> matchMedia_defined w \<longrightarrow>
      mount w = (Some TypeError, console_warn ''Failed to load theme preference:'' w) \<and>
      mounted (snd (mount w)) = mounted w \<and>
      root_classList (snd (mount w)) = root_classList w \<and>
      storage_items (snd (mount w)) = storage_items w \<and>
      effects_since w (snd (mount w)) = [ConsoleWarn ''Failed to load theme preference:'']) \<and>
   (fst (mount w) = None \<longleftrightarrow> document_defined w \<and> (window_defined w \<longrightarrow> matchMedia_defined w))"
proof (intro conjI impI)
  assume a: "localStorage_getItem (storageKey THEME_CONFIG) w = Inr (Some s) \<and> valid_theme (Str s)"
  then show "theme (snd (mount w)) = Str s"
    by (simp add: effect_init_theme valid_theme_def)
  from a show "mounted (snd (mount w))"
    by (auto simp add: effect_init_returns valid_theme_def)
next
  assume a: "(\<forall>s. localStorage_getItem (storageKey THEME_CONFIG) w = Inr (Some s) \<longrightarrow>
                 \<not> valid_theme (Str s)) \<and> window_defined w \<and> matchMedia_defined w"
  then show "theme (snd (mount w)) = (if media_matches w then Str ''dark'' else Str ''light'')"
    by (auto simp add: effect_init_theme valid_theme_def split: sum.splits option.splits)
  from a show "mounted (snd (mount w))"
    by (simp add: effect_init_returns)
next
  assume a: "\<not> window_defined w"
  then show "theme (snd (mount w)) = defaultTheme THEME_CONFIG"
    by (simp add: effect_init_theme localStorage_getItem_def)
  from a show "mounted (snd (mount w))"
    by (simp add: effect_init_returns)
next
  assume a: "(\<forall>s. localStorage_getItem (storageKey THEME_CONFIG) w = Inr (Some s) \<longrightarrow>
                 \<not> valid_theme (Str s)) \<and> window_defined w \<and> \<not> matchMedia_defined w"
  then have "localStorage_getItem (storageKey THEME_CONFIG) w \<notin> {Inr (Some ''light''), Inr (Some ''dark'')}"
    by (auto simp add: valid_theme_def)
  with a show m: "mount w = (Some TypeError, console_warn ''Failed to load theme preference:'' w)"
    by (simp add: mount_throws)
  show "mounted (snd (mount w)) = mounted w"
    "root_classList (snd (mount w)) = root_classList w"
    "storage_items (snd (mount w)) = storage_items w"
    "effects_since w (snd (mount w)) = [ConsoleWarn ''Failed to load theme preference:'']"
    unfolding m by (simp_all add: effects_since_def)
next
  show "fst (mount w) = None \<longleftrightarrow> document_defined w \<and> (window_defined w \<longrightarrow> matchMedia_defined w)"
    by (rule mount_returns)
qed

theorem initial_theme_precedence_witness:
  "theme (snd (mount (fresh_browser\<lparr>storage_items := [''theme'' \<mapsto> ''dark''], media_matches := False\<rparr>)))
     = Str ''dark'' \<and>
   theme (snd (mount (fresh_browser\<lparr>media_matches := True\<rparr>))) = Str ''dark'' \<and>
   theme (snd (mount (fresh_browser\<lparr>window_defined := False\<rparr>))) = Str ''light'' \<and>
   mounted (snd (mount fresh_browser)) \<and> fst (mount fresh_browser) = None \<and>
   fst (mount (fresh_browser\<lparr>matchMedia_defined := False\<rparr>)) = Some TypeError \<and>
   \<not> mounted (snd (mount (fresh_browser\<lparr>matchMedia_defined := False\<rparr>))) \<and>
   effects_since (fresh_browser\<lparr>matchMedia_defined := False\<rparr>)
     (snd (mount (fresh_browser\<lparr>matchMedia_defined := False\<rparr>))) =
     [ConsoleWarn ''Failed to load theme preference:'']"
proof -
  let ?a = "fresh_browser\<lparr>storage_items := [''theme'' \<mapsto> ''dark''], media_matches := False\<rparr>"
  let ?b = "fresh_browser\<lparr>media_matches := True\<rparr>"
  let ?c = "fresh_browser\<lparr>window_defined := False\<rparr>"
  let ?d = "fresh_browser\<lparr>matchMedia_defined := False\<rparr>"
  have a: "localStorage_getItem (storageKey THEME_CONFIG) ?a = Inr (Some ''dark'') \<and>
           valid_theme (Str ''dark'')"
    by (simp add: localStorage_getItem_def fresh_browser_def THEME_CONFIG_def valid_theme_def)
  have b: "(\<forall>s. localStorage_getItem (storageKey THEME_CONFIG) ?b = Inr (Some s) \<longrightarrow>
                \<not> valid_theme (Str s)) \<and> window_defined ?b \<and> matchMedia_defined ?b"
    by (simp add: localStorage_getItem_def fresh_browser_def THEME_CONFIG_def)
  have c: "\<not> window_defined ?c"
    by (simp add: fresh_browser_def)
  have d: "(\<forall>s. localStorage_getItem (storageKey THEME_CONFIG) ?d = Inr (Some s) \<longrightarrow>
                \<not> valid_theme (Str s)) \<and> window_defined ?d \<and> \<not> matchMedia_defined ?d"
    by (simp add: localStorage_getItem_def fresh_browser_def THEME_CONFIG_def)
  have e: "(\<forall>s. localStorage_getItem (storageKey THEME_CONFIG) fresh_browser = Inr (Some s) \<longrightarrow>
                \<not> valid_theme (Str s)) \<and> window_defined fresh_browser \<and>
           matchMedia_defined fresh_browser"
    by (simp add: localStorage_getItem_def fresh_browser_def THEME_CONFIG_def)
  have f: "document_defined fresh_browser" "media_matches ?b" "\<not> mounted ?d"
    by (simp_all add: fresh_browser_def)
  have 1: "theme (snd (mount ?a)) = Str ''dark''"
    using initial_theme_precedence [of ?a "''dark''"] a by blast
  have 2: "theme (snd (mount ?b)) = Str ''dark''"
    using initial_theme_precedence [of ?b] b f(2) by auto
  have 3: "theme (snd (mount ?c)) = Str ''light''"
    using initial_theme_precedence [of ?c] c by (simp add: THEME_CONFIG_def)
  have 4: "mounted (snd (mount fresh_browser))"
    using initial_theme_precedence [of fresh_browser] e by blast
  have 5: "fst (mount fresh_browser) = None"
    using initial_theme_precedence [of fresh_browser] e f(1) by blast
  note t = initial_theme_precedence [of ?d]
  from t d have "mount ?d = (Some TypeError, console_warn ''Failed to load theme preference:'' ?d)"
    by blast
  then have 6: "fst (mount ?d) = Some TypeError"
    by (simp only: fst_conv)
  from t d have "mounted (snd (mount ?d)) = mounted ?d"
    by blast
  with f(3) have 7: "\<not> mounted (snd (mount ?d))"
    by blast
  from t d have 8: "effects_since ?d (snd (mount ?d)) = [ConsoleWarn ''Failed to load theme preference:'']"
    by blast
  from 1 2 3 4 5 6 7 8 show ?thesis
    by (intro conjI)
qed

text \<open>
  C3, as the specification has it: \<^verbatim>\<open>setTheme\<close> of any value that is not exactly \<^verbatim>\<open>'light'\<close>
  or \<^verbatim>\<open>'dark'\<close> does not throw and leaves the configured default as the effective theme.
  The branch for an invalid value begins with a template literal that converts the value
  to a string (line 127), before the default is substituted (line 128). A value that has
  no string, such as a symbol, makes that conversion throw: on a mounted instance whose
  theme is dark, \<^verbatim>\<open>setTheme(Symbol())\<close> throws a TypeError and the effective theme is still
  dark, which is not the configured default.
\<close>

theorem setTheme_symbol_throws:
  "\<not> valid_theme Symbol \<and>
   theme (step (CallSetTheme (Str ''dark'')) (snd (mount fresh_browser))) = Str ''dark'' \<and>
   fst (setTheme Symbol (step (CallSetTheme (Str ''dark'')) (snd (mount fresh_browser)))) = Some TypeError \<and>
   theme (step (CallSetTheme Symbol) (step (CallSetTheme (Str ''dark'')) (snd (mount fresh_browser))))
     = Str ''dark'' \<and>
   theme (step (CallSetTheme Symbol) (step (CallSetTheme (Str ''dark'')) (snd (mount fresh_browser))))
     \<noteq> defaultTheme THEME_CONFIG"
  by code_simp

text \<open>
  C3, amended. On a mounted instance, an argument of \<^verbatim>\<open>setTheme\<close> that is neither \<^verbatim>\<open>'light'\<close>
  nor \<^verbatim>\<open>'dark'\<close> and that can be converted to a string (another string, the empty string,
  \<^verbatim>\<open>null\<close>, \<^verbatim>\<open>undefined\<close>) makes no call throw, and leaves the configured default as the
  effective theme, never the argument. An argument that is neither and whose conversion to
  a string throws makes \<^verbatim>\<open>setTheme\<close> throw that exception and change nothing, so the
  effective theme stays the valid theme it was. A stored value that is neither of the two
  gives the mount the theme it would have had with nothing stored, and not that value. So
  the effective theme of a mounted instance is always \<^verbatim>\<open>light\<close> or \<^verbatim>\<open>dark\<close>.
\<close>

theorem invalid_theme_never_effective:
  "(reachable w \<and> \<not> valid_theme v \<and> ToString v = Inr s' \<longrightarrow>
      fst (setTheme v w) = None \<and>
      theme (step (CallSetTheme v) w) = defaultTheme THEME_CONFIG \<and>
      theme (step (CallSetTheme v) w) \<noteq> v) \<and>
   (reachable w \<and> \<not> valid_theme v \<and> ToString v = Inl e \<longrightarrow>
      setTheme v w = (Some e, w) \<and>
      step (CallSetTheme v) w = w \<and>
      theme (step (CallSetTheme v) w) \<noteq> v) \<and>
   (initial w0 \<and> localStorage_getItem (storageKey THEME_CONFIG) w0 = Inr (Some s) \<and>
    \<not> valid_theme (Str s) \<longrightarrow>
      theme (snd (mount w0)) =
        theme (snd (mount (w0\<lparr>storage_items := (storage_items w0)(storageKey THEME_CONFIG := None)\<rparr>))) \<and>
      theme (snd (mount w0)) \<noteq> Str s) \<and>
   (reachable w1 \<longrightarrow> valid_theme (theme w1))"
proof (intro conjI impI)
  assume a: "reachable w \<and> \<not> valid_theme v \<and> ToString v = Inr s'"
  then have c: "consistent w"
    by (simp add: reachable_consistent)
  then show "fst (setTheme v w) = None"
    using a by (simp add: consistent_def setTheme_returns)
  show "theme (step (CallSetTheme v) w) = defaultTheme THEME_CONFIG"
    using a by (simp add: step_def)
  show "theme (step (CallSetTheme v) w) \<noteq> v"
    using a by (auto simp add: step_def valid_theme_def THEME_CONFIG_def)
next
  assume a: "reachable w \<and> \<not> valid_theme v \<and> ToString v = Inl e"
  then have c: "consistent w"
    by (simp add: reachable_consistent)
  from a show t: "setTheme v w = (Some e, w)"
    by (simp add: setTheme_throws)
  have "rerender w = w"
    using c by (intro rerender_same) (simp_all add: consistent_def)
  then show "step (CallSetTheme v) w = w"
    by (simp add: step_def t)
  then show "theme (step (CallSetTheme v) w) \<noteq> v"
    using a c by (auto simp add: consistent_def)
next
  assume a: "initial w0 \<and> localStorage_getItem (storageKey THEME_CONFIG) w0 = Inr (Some s) \<and>
             \<not> valid_theme (Str s)"
  let ?w = "w0\<lparr>storage_items := (storage_items w0)(storageKey THEME_CONFIG := None)\<rparr>"
  have "localStorage_getItem (storageKey THEME_CONFIG) ?w = Inr None"
    using a by (simp add: localStorage_getItem_def split: if_splits)
  moreover have "fst (detectSystemTheme ?w) = fst (detectSystemTheme w0)"
    by simp
  ultimately show "theme (snd (mount w0)) = theme (snd (mount ?w))"
    using a by (simp add: effect_init_theme valid_theme_def)
  have "valid_theme (theme w0)"
    using a by (simp add: initial_def valid_theme_def THEME_CONFIG_def)
  then have "valid_theme (theme (snd (mount w0)))"
    by (simp add: effect_init_valid)
  then show "theme (snd (mount w0)) \<noteq> Str s"
    using a by auto
next
  assume "reachable w1"
  then show "valid_theme (theme w1)"
    using reachable_consistent [of w1] by (simp add: consistent_def)
qed

theorem invalid_theme_never_effective_witness:
  "reachable (step (CallSetTheme (Str ''dark'')) (snd (mount fresh_browser))) \<and>
   fst (setTheme (Str ''blue'') (step (CallSetTheme (Str ''dark'')) (snd (mount fresh_browser)))) = None \<and>
   theme (step (CallSetTheme (Str ''blue''))
           (step (CallSetTheme (Str ''dark'')) (snd (mount fresh_browser)))) = Str ''light'' \<and>
   theme (step (CallSetTheme Null)
           (step (CallSetTheme (Str ''dark'')) (snd (mount fresh_browser)))) = Str ''light'' \<and>
   theme (step (CallSetTheme (Str []))
           (step (CallSetTheme (Str ''dark'')) (snd (mount fresh_browser)))) = Str ''light'' \<and>
   fst (setTheme Symbol (step (CallSetTheme (Str ''dark'')) (snd (mount fresh_browser)))) = Some TypeError \<and>
   step (CallSetTheme Symbol) (step (CallSetTheme (Str ''dark'')) (snd (mount fresh_browser))) =
     step (CallSetTheme (Str ''dark'')) (snd (mount fresh_browser)) \<and>
   theme (snd (mount (fresh_browser\<lparr>storage_items := [''theme'' \<mapsto> ''blue''], media_matches := True\<rparr>)))
     = Str ''dark''"
proof -
  let ?w = "step (CallSetTheme (Str ''dark'')) (snd (mount fresh_browser))"
  let ?b = "fresh_browser\<lparr>storage_items := [''theme'' \<mapsto> ''blue''], media_matches := True\<rparr>"
  have r: "reachable ?w"
    by (rule reachable_step, rule reachable_after_mount) (rule fresh_browser_mounts)+
  have i: "\<not> valid_theme (Str ''blue'')" "\<not> valid_theme Null" "\<not> valid_theme (Str [])"
    "\<not> valid_theme Symbol"
    by (simp_all add: valid_theme_def)
  have 1: "fst (setTheme (Str ''blue'') ?w) = None"
    and 2: "theme (step (CallSetTheme (Str ''blue'')) ?w) = Str ''light''"
    using invalid_theme_never_effective [of ?w "Str ''blue''" "''blue''"] r i
    by (simp_all add: THEME_CONFIG_def)
  have 3: "theme (step (CallSetTheme Null) ?w) = Str ''light''"
    using invalid_theme_never_effective [of ?w Null "''null''"] r i by (simp add: THEME_CONFIG_def)
  have 4: "theme (step (CallSetTheme (Str [])) ?w) = Str ''light''"
    using invalid_theme_never_effective [of ?w "Str []" "[]"] r i by (simp add: THEME_CONFIG_def)
  have y: "ToString Symbol = Inl TypeError"
    by simp
  note t = invalid_theme_never_effective [of ?w Symbol _ TypeError]
  from t r i(4) y have "setTheme Symbol ?w = (Some TypeError, ?w)"
    by blast
  then have 5: "fst (setTheme Symbol ?w) = Some TypeError"
    by (simp only: fst_conv)
  from t r i(4) y have 6: "step (CallSetTheme Symbol) ?w = ?w"
    by blast
  have s: "initial ?b \<and> localStorage_getItem (storageKey THEME_CONFIG) ?b = Inr (Some ''blue'') \<and>
           \<not> valid_theme (Str ''blue'')"
    by (simp add: initial_def localStorage_getItem_def fresh_browser_def THEME_CONFIG_def
        valid_theme_def)
  have "theme (snd (mount ?b)) =
        theme (snd (mount (?b\<lparr>storage_items := (storage_items ?b)(storageKey THEME_CONFIG := None)\<rparr>)))"
    using invalid_theme_never_effective [of _ _ _ _ ?b "''blue''"] s by blast
  also have "\<dots> = Str ''dark''"
    by code_simp
  finally have 7: "theme (snd (mount ?b)) = Str ''dark''" .
  from r 1 2 3 4 5 6 7 show ?thesis
    by (intro conjI)
qed

text \<open>
  C6. On a mounted instance whose storage refuses writes, \<^verbatim>\<open>setTheme('dark')\<close> returns
  without throwing, the effective theme is dark, the root element carries the \<^verbatim>\<open>dark\<close>
  class, the storage is as it was, and the instance goes on as a mounted instance.
\<close>

theorem storage_write_failure_tolerated:
  "reachable w \<Longrightarrow> storage_set_throws w \<Longrightarrow>
   fst (setTheme (Str ''dark'') w) = None \<and>
   theme (snd (setTheme (Str ''dark'') w)) = Str ''dark'' \<and>
   ''dark'' \<in> set (root_classList (snd (setTheme (Str ''dark'') w))) \<and>
   storage_items (snd (setTheme (Str ''dark'') w)) = storage_items w \<and>
   theme (step (CallSetTheme (Str ''dark'')) w) = Str ''dark'' \<and>
   ''dark'' \<in> set (root_classList (step (CallSetTheme (Str ''dark'')) w)) \<and>
   reachable (step (CallSetTheme (Str ''dark'')) w)"
proof -
  assume r: "reachable w" and t: "storage_set_throws w"
  from r have d: "document_defined w" and a: "ref_attached w"
    using reachable_consistent [of w] by (simp_all add: consistent_def)
  have v: "valid_theme (Str ''dark'')"
    by (simp add: valid_theme_def)
  have "fst (setTheme (Str ''dark'') w) = None"
    using d a v by (rule setTheme_valid_returns)
  moreover have "theme (snd (setTheme (Str ''dark'') w)) = Str ''dark''"
    by (simp add: valid_theme_def)
  moreover have "''dark'' \<in> set (root_classList (snd (setTheme (Str ''dark'') w)))"
    using d v by (simp add: setTheme_root_classList)
  moreover have "storage_items (snd (setTheme (Str ''dark'') w)) = storage_items w"
    using t v by (simp add: setTheme_storage_items)
  moreover have "reachable (step (CallSetTheme (Str ''dark'')) w)"
    using r by (rule reachable_step)
  ultimately show ?thesis
    by (simp add: step_def)
qed

theorem storage_write_failure_tolerated_witness:
  "reachable (snd (mount (fresh_browser\<lparr>storage_set_throws := True\<rparr>))) \<and>
   storage_set_throws (snd (mount (fresh_browser\<lparr>storage_set_throws := True\<rparr>))) \<and>
   fst (setTheme (Str ''dark'') (snd (mount (fresh_browser\<lparr>storage_set_throws := True\<rparr>)))) = None \<and>
   theme (step (CallSetTheme (Str ''dark'')) (snd (mount (fresh_browser\<lparr>storage_set_throws := True\<rparr>))))
     = Str ''dark'' \<and>
   ''dark'' \<in> set (root_classList
     (step (CallSetTheme (Str ''dark'')) (snd (mount (fresh_browser\<lparr>storage_set_throws := True\<rparr>))))) \<and>
   storage_items (snd (setTheme (Str ''dark'') (snd (mount (fresh_browser\<lparr>storage_set_throws := True\<rparr>)))))
     ''theme'' = None"
proof -
  let ?w = "snd (mount (fresh_browser\<lparr>storage_set_throws := True\<rparr>))"
  have r: "reachable ?w"
    by (rule reachable_after_mount) (rule fresh_browser_mounts)+
  have t: "storage_set_throws ?w"
    by code_simp
  have e: "storage_items ?w ''theme'' = None"
    by code_simp
  note c = storage_write_failure_tolerated [OF r t]
  from c have 1: "fst (setTheme (Str ''dark'') ?w) = None" by blast
  from c have 2: "theme (step (CallSetTheme (Str ''dark'')) ?w) = Str ''dark''" by blast
  from c have 3: "''dark'' \<in> set (root_classList (step (CallSetTheme (Str ''dark'')) ?w))" by blast
  from c have "storage_items (snd (setTheme (Str ''dark'') ?w)) = storage_items ?w" by blast
  with e have 4: "storage_items (snd (setTheme (Str ''dark'') ?w)) ''theme'' = None"
    by (simp only:)
  from r t 1 2 3 4 show ?thesis
    by (intro conjI)
qed

text \<open>
  C7, as the specification has it: when the system preference changes while the storage
  holds no preference, the effective theme follows the system. \<^verbatim>\<open>handleChange\<close> decides by
  reading the storage (line 183) inside a \<^verbatim>\<open>try\<close> whose \<^verbatim>\<open>catch\<close> only logs a warning
  (lines 188-190). In a browser whose storage refuses reads and writes nothing is ever
  stored; the mount there takes the system preference (it would start dark if the system
  asked for dark), but when the system of the mounted, light instance turns dark the read
  throws and the effective theme stays light.
\<close>

theorem system_change_ignored_when_unreadable:
  "fst (mount (fresh_browser\<lparr>storage_get_throws := True, storage_set_throws := True\<rparr>)) = None \<and>
   storage_items (snd (mount (fresh_browser\<lparr>storage_get_throws := True, storage_set_throws := True\<rparr>)))
     ''theme'' = None \<and>
   theme (snd (mount (fresh_browser\<lparr>storage_get_throws := True, storage_set_throws := True\<rparr>)))
     = Str ''light'' \<and>
   theme (snd (mount (fresh_browser\<lparr>storage_get_throws := True, storage_set_throws := True,
                                      media_matches := True\<rparr>))) = Str ''dark'' \<and>
   theme (step (SystemPreferenceChanges True)
           (snd (mount (fresh_browser\<lparr>storage_get_throws := True, storage_set_throws := True\<rparr>))))
     = Str ''light'' \<and>
   theme (step (SystemPreferenceChanges True)
           (snd (mount (fresh_browser\<lparr>storage_get_throws := True, storage_set_throws := True\<rparr>))))
     \<noteq> Str ''dark''"
  by code_simp

text \<open>
  C7, amended. On a mounted instance, when the system preference changes: if the instance
  could subscribe to the media query and the read of the storage key returns nothing (or
  the empty string), the effective theme becomes dark if the system now asks for dark and
  light otherwise, and it is applied to the root element; if the read returns a non-empty
  value, a valid theme or not, the effective theme and the root element stay as they were;
  if the read throws, they stay as they were too; and if the instance could not subscribe
  (no window, or a media query list with neither \<^verbatim>\<open>addEventListener\<close> nor \<^verbatim>\<open>addListener\<close>),
  the effective theme stays as it was.
\<close>

theorem system_change_obeys_stored_preference:
  "reachable w \<Longrightarrow>
   (window_defined w \<and> (media_addEventListener w \<or> media_addListener w) \<and>
    localStorage_getItem (storageKey THEME_CONFIG) w \<in> {Inr None, Inr (Some [])} \<longrightarrow>
      theme (step (SystemPreferenceChanges m) w) = (if m then Str ''dark'' else Str ''light'') \<and>
      (''dark'' \<in> set (root_classList (step (SystemPreferenceChanges m) w)) \<longleftrightarrow> m)) \<and>
   (localStorage_getItem (storageKey THEME_CONFIG) w = Inr (Some s) \<and> s \<noteq> [] \<longrightarrow>
      theme (step (SystemPreferenceChanges m) w) = theme w \<and>
      root_classList (step (SystemPreferenceChanges m) w) = root_classList w) \<and>
   (localStorage_getItem (storageKey THEME_CONFIG) w = Inl e \<longrightarrow>
      theme (step (SystemPreferenceChanges m) w) = theme w \<and>
      root_classList (step (SystemPreferenceChanges m) w) = root_classList w) \<and>
   (\<not> window_defined w \<or> \<not> media_addEventListener w \<and> \<not> media_addListener w \<longrightarrow>
      theme (step (SystemPreferenceChanges m) w) = theme w)"
proof -
  assume r: "reachable w"
  let ?w = "w\<lparr>media_matches := m\<rparr>"
  from r have d: "document_defined w" and s: "subscribed_as (theme w) w"
    using reachable_consistent [of w] by (simp_all add: consistent_def)
  have s': "subscribed_as (theme w) ?w"
    using s by simp
  have p: "perform (SystemPreferenceChanges m) w =
           (if cleanup_system w = None then ?w else handleChange m ?w)"
    by (simp add: dispatch_subscribed [OF s'])
  have d': "document_defined ?w"
    using d by simp
  have g: "localStorage_getItem (storageKey THEME_CONFIG) ?w =
           localStorage_getItem (storageKey THEME_CONFIG) w"
    by simp
  show ?thesis
  proof (intro conjI impI)
    assume a: "window_defined w \<and> (media_addEventListener w \<or> media_addListener w) \<and>
               localStorage_getItem (storageKey THEME_CONFIG) w \<in> {Inr None, Inr (Some [])}"
    then have l: "cleanup_system w \<noteq> None"
      using s by (intro system_listener_registered) simp_all
    have n: "localStorage_getItem (storageKey THEME_CONFIG) ?w \<in> {Inr None, Inr (Some [])}"
      using a unfolding g by blast
    have p': "perform (SystemPreferenceChanges m) w = handleChange m ?w"
      using l by (auto simp add: p simp del: perform.simps)
    from n show "theme (step (SystemPreferenceChanges m) w) = (if m then Str ''dark'' else Str ''light'')"
      by (simp add: step_def p' del: perform.simps insert_iff)
    show "''dark'' \<in> set (root_classList (step (SystemPreferenceChanges m) w)) \<longleftrightarrow> m"
      by (simp add: step_def p' handleChange_root_classList [OF d' n] del: perform.simps)
  next
    assume a: "localStorage_getItem (storageKey THEME_CONFIG) w = Inr (Some s) \<and> s \<noteq> []"
    then have n: "localStorage_getItem (storageKey THEME_CONFIG) ?w \<notin> {Inr None, Inr (Some [])}"
      unfolding g by auto
    then show "theme (step (SystemPreferenceChanges m) w) = theme w"
      by (simp add: step_def p del: perform.simps insert_iff)
    show "root_classList (step (SystemPreferenceChanges m) w) = root_classList w"
      by (simp add: step_def p handleChange_kept(1) [OF n] del: perform.simps)
  next
    assume a: "localStorage_getItem (storageKey THEME_CONFIG) w = Inl e"
    then have n: "localStorage_getItem (storageKey THEME_CONFIG) ?w \<notin> {Inr None, Inr (Some [])}"
      unfolding g by auto
    then show "theme (step (SystemPreferenceChanges m) w) = theme w"
      by (simp add: step_def p del: perform.simps insert_iff)
    show "root_classList (step (SystemPreferenceChanges m) w) = root_classList w"
      by (simp add: step_def p handleChange_kept(1) [OF n] del: perform.simps)
  next
    assume "\<not> window_defined w \<or> \<not> media_addEventListener w \<and> \<not> media_addListener w"
    then have "cleanup_system w = None"
      using s by (simp add: subscribed_as_def)
    then show "theme (step (SystemPreferenceChanges m) w) = theme w"
      by (simp add: step_def p del: perform.simps)
  qed
qed

theorem system_change_obeys_stored_preference_witness:
  "reachable (snd (mount (fresh_browser\<lparr>storage_set_throws := True\<rparr>))) \<and>
   localStorage_getItem (storageKey THEME_CONFIG) (snd (mount (fresh_browser\<lparr>storage_set_throws := True\<rparr>)))
     = Inr None \<and>
   theme (snd (mount (fresh_browser\<lparr>storage_set_throws := True\<rparr>))) = Str ''light'' \<and>
   theme (step (SystemPreferenceChanges True) (snd (mount (fresh_browser\<lparr>storage_set_throws := True\<rparr>))))
     = Str ''dark'' \<and>
   reachable (snd (mount fresh_browser)) \<and>
   localStorage_getItem (storageKey THEME_CONFIG) (snd (mount fresh_browser)) = Inr (Some ''light'') \<and>
   theme (step (SystemPreferenceChanges True) (snd (mount fresh_browser))) = Str ''light'' \<and>
   reachable (snd (mount (fresh_browser\<lparr>storage_get_throws := True, storage_set_throws := True\<rparr>))) \<and>
   localStorage_getItem (storageKey THEME_CONFIG)
     (snd (mount (fresh_browser\<lparr>storage_get_throws := True, storage_set_throws := True\<rparr>)))
     = Inl StorageError \<and>
   theme (step (SystemPreferenceChanges True)
           (snd (mount (fresh_browser\<lparr>storage_get_throws := True, storage_set_throws := True\<rparr>))))
     = Str ''light''"
proof -
  let ?a = "snd (mount (fresh_browser\<lparr>storage_set_throws := True\<rparr>))"
  let ?b = "snd (mount fresh_browser)"
  let ?c = "snd (mount (fresh_browser\<lparr>storage_get_throws := True, storage_set_throws := True\<rparr>))"
  have ra: "reachable ?a"
    by (rule reachable_after_mount) (rule fresh_browser_mounts)+
  have rb: "reachable ?b"
    by (rule reachable_after_mount) (rule fresh_browser_mounts)+
  have rc: "reachable ?c"
    by (rule reachable_after_mount) (simp_all add: initial_def fresh_browser_def THEME_CONFIG_def)
  have wa: "window_defined ?a \<and> (media_addEventListener ?a \<or> media_addListener ?a)"
    by code_simp
  have na: "localStorage_getItem (storageKey THEME_CONFIG) ?a = Inr None"
    by code_simp
  have nb: "localStorage_getItem (storageKey THEME_CONFIG) ?b = Inr (Some ''light'')"
    by code_simp
  have nc: "localStorage_getItem (storageKey THEME_CONFIG) ?c = Inl StorageError"
    by code_simp
  have ta: "theme ?a = Str ''light''" and tb: "theme ?b = Str ''light''"
    and tc: "theme ?c = Str ''light''"
    by code_simp+
  have 1: "theme (step (SystemPreferenceChanges True) ?a) = Str ''dark''"
    using system_change_obeys_stored_preference [OF ra, of True] wa na by simp
  have "theme (step (SystemPreferenceChanges True) ?b) = theme ?b"
    using system_change_obeys_stored_preference [OF rb, of True "''light''"] nb by simp
  with tb have 2: "theme (step (SystemPreferenceChanges True) ?b) = Str ''light''"
    by (simp only:)
  have "theme (step (SystemPreferenceChanges True) ?c) = theme ?c"
    using system_change_obeys_stored_preference [OF rc, of True _ StorageError] nc by blast
  with tc have 3: "theme (step (SystemPreferenceChanges True) ?c) = Str ''light''"
    by (simp only:)
  from ra na ta 1 rb nb 2 rc nc 3 show ?thesis
    by (intro conjI)
qed

text \<open>
  C10. Where there is a document and the storage accepts writes, every application of a
  theme (of any value that has a string, which the two themes have) stores it under the
  storage key. The initialisation effect, when it returns, has applied the theme it has
  chosen, with or without a stored value to start from, so after the mount the storage
  holds the effective theme although nobody has chosen it.
\<close>

theorem every_application_is_persisted:
  "(document_defined w \<and> window_defined w \<and> \<not> storage_set_throws w \<and>
    ToString t = Inr (to_string t) \<longrightarrow>
      storage_items (applyTheme t w) (storageKey THEME_CONFIG) = Some (to_string t) \<and>
      StorageSetItem (storageKey THEME_CONFIG) (to_string t) \<in> set (effects_since w (applyTheme t w))) \<and>
   (document_defined w \<and> window_defined w \<and> \<not> storage_set_throws w \<and>
    fst (effect_init w) = None \<longrightarrow>
      storage_items (snd (mount w)) (storageKey THEME_CONFIG) = Some (to_string (theme (snd (mount w)))))"
  by (simp add: applyTheme_storage_items applyTheme_trace effects_since_def effect_init_storage_items)

theorem every_application_is_persisted_witness:
  "storage_items (fresh_browser\<lparr>media_matches := True\<rparr>) ''theme'' = None \<and>
   storage_items (snd (mount (fresh_browser\<lparr>media_matches := True\<rparr>))) ''theme'' = Some ''dark'' \<and>
   storage_items (applyTheme (Str ''light'') (snd (mount (fresh_browser\<lparr>media_matches := True\<rparr>)))) ''theme''
     = Some ''light''"
proof -
  let ?w = "fresh_browser\<lparr>media_matches := True\<rparr>"
  have e: "document_defined ?w \<and> window_defined ?w \<and> \<not> storage_set_throws ?w \<and>
           fst (effect_init ?w) = None"
    by (simp add: fresh_browser_def effect_init_returns)
  have e': "document_defined (snd (mount ?w)) \<and> window_defined (snd (mount ?w)) \<and>
            \<not> storage_set_throws (snd (mount ?w)) \<and>
            ToString (Str ''light'') = Inr (to_string (Str ''light''))"
    by code_simp
  have 0: "storage_items ?w ''theme'' = None"
    by (simp add: fresh_browser_def)
  have t: "theme (snd (mount ?w)) = Str ''dark''"
    by code_simp
  have "storage_items (snd (mount ?w)) (storageKey THEME_CONFIG) = Some (to_string (theme (snd (mount ?w))))"
    using every_application_is_persisted [of ?w] e by blast
  then have 1: "storage_items (snd (mount ?w)) ''theme'' = Some ''dark''"
    unfolding t by (simp add: THEME_CONFIG_def)
  have "storage_items (applyTheme (Str ''light'') (snd (mount ?w))) (storageKey THEME_CONFIG) =
        Some (to_string (Str ''light''))"
    using every_application_is_persisted [of "snd (mount ?w)" "Str ''light''"] e' by blast
  then have 2: "storage_items (applyTheme (Str ''light'') (snd (mount ?w))) ''theme'' = Some ''light''"
    by (simp add: THEME_CONFIG_def)
  from 0 1 2 show ?thesis
    by (intro conjI)
qed

text \<open>
  C1, as the specification has it: when another browsing context of the same origin writes
  \<^verbatim>\<open>dark\<close> under the key \<^verbatim>\<open>theme\<close>, the effective theme becomes dark. The hook registers
  no listener for storage events, so that is not what happens: in a fresh browser whose
  system asks for light, the mounted instance is light, and it is still light after the
  other context has written \<^verbatim>\<open>dark\<close> and the storage event has been sent.
\<close>

theorem foreign_write_not_adopted:
  "storage_items (step (OtherContextWrites ''theme'' (Some ''dark'')) (snd (mount fresh_browser))) ''theme''
     = Some ''dark'' \<and>
   theme (step (OtherContextWrites ''theme'' (Some ''dark'')) (snd (mount fresh_browser))) \<noteq> Str ''dark''"
  by code_simp

text \<open>
  C1, amended. When another browsing context of the same origin writes or removes a value
  under any key, the theme key included, a mounted instance does not react: it has
  registered no listener for storage events, so its effective theme stays as it was, it
  produces no effect at all (in particular no write to the storage), and the only change
  in its world is the other context's own write.
\<close>

theorem foreign_write_changes_nothing:
  "reachable w \<Longrightarrow>
   theme (step (OtherContextWrites k v) w) = theme w \<and>
   effects_since w (step (OtherContextWrites k v) w) = [] \<and>
   step (OtherContextWrites k v) w = w\<lparr>storage_items := (storage_items w)(k := v)\<rparr>"
  using foreign_write_ignored [of w k v] reachable_consistent [of w]
  by (simp add: effects_since_def)

theorem foreign_write_changes_nothing_witness:
  "reachable (snd (mount fresh_browser)) \<and>
   theme (snd (mount fresh_browser)) = Str ''light'' \<and>
   theme (step (OtherContextWrites ''theme'' (Some ''dark'')) (snd (mount fresh_browser))) = Str ''light'' \<and>
   effects_since (snd (mount fresh_browser))
     (step (OtherContextWrites ''theme'' (Some ''dark'')) (snd (mount fresh_browser))) = []"
proof -
  let ?w = "snd (mount fresh_browser)"
  have r: "reachable ?w"
    by (rule reachable_after_mount) (rule fresh_browser_mounts)+
  have l: "theme ?w = Str ''light''"
    by code_simp
  note c = foreign_write_changes_nothing [OF r, of "''theme''" "Some ''dark''"]
  from c have "theme (step (OtherContextWrites ''theme'' (Some ''dark'')) ?w) = theme ?w" by blast
  with l have 1: "theme (step (OtherContextWrites ''theme'' (Some ''dark'')) ?w) = Str ''light''"
    by (simp only:)
  from c have 2: "effects_since ?w (step (OtherContextWrites ''theme'' (Some ''dark'')) ?w) = []"
    by blast
  from r l 1 2 show ?thesis
    by (intro conjI)
qed

text \<open>
  C8, as the specification has it: \<^verbatim>\<open>setTheme\<close> writes to the storage before it announces,
  and updates the theme-color meta element last. In the source the meta element is updated
  inside \<^verbatim>\<open>applyTheme\<close>, before the write to the storage and before the announcement: on a
  mounted instance in a fresh browser, the write to the storage does not come before the
  update of the meta element, it comes after it, and so does the announcement.
\<close>

theorem meta_update_not_last:
  "\<not> happens_before (StorageSetItem ''theme'' ''dark'') (MetaSetAttribute ''content'' ''#18181b'')
       (effects_since (snd (mount fresh_browser))
          (snd (setTheme (Str ''dark'') (snd (mount fresh_browser))))) \<and>
   happens_before (MetaSetAttribute ''content'' ''#18181b'') (StorageSetItem ''theme'' ''dark'')
       (effects_since (snd (mount fresh_browser))
          (snd (setTheme (Str ''dark'') (snd (mount fresh_browser))))) \<and>
   happens_before (MetaSetAttribute ''content'' ''#18181b'')
       (BodyAppendChild 0 \<lparr>aria_live = ''polite'', aria_atomic = ''true'', className = ''sr-only'',
                            textContent = ''Theme changed to dark mode''\<rparr>)
       (effects_since (snd (mount fresh_browser))
          (snd (setTheme (Str ''dark'') (snd (mount fresh_browser)))))"
  by code_simp

text \<open>
  C8, amended. On a mounted instance \<^verbatim>\<open>setTheme\<close> of a valid theme has these effects, in
  this order: (1) the in-memory theme is set; (2) the root element gets the transition
  property and gains or loses the \<^verbatim>\<open>dark\<close> class, and the removal of the transition is
  scheduled after the configured 200 ms; (3) the theme-color meta element, if the page has
  one, gets the colour of the theme; (4) the theme is written to the storage under the
  storage key, or a warning is logged when the write throws; (5) the announcer of an earlier
  call (if the ref holds one) is removed and a new one, polite, atomic and of class
  \<^verbatim>\<open>sr-only\<close>, is appended to the body, with a timer of 1000 ms. When that timer fires the
  announcer is no longer in the body.
\<close>

theorem setTheme_effect_order:
  "reachable w \<Longrightarrow> valid_theme t \<Longrightarrow>
   effects_since w (snd (setTheme t w)) =
     [SetThemeState t,
      StyleSetProperty ''--theme-transition'' ''background-color 0.2s ease-in-out'',
      if t = Str ''dark'' then ClassListAdd ''dark'' else ClassListRemove ''dark'',
      SetTimeout RemoveTransition 200] @
     (case meta_theme_color w of
        Some old \<Rightarrow> [MetaSetAttribute ''content'' (if t = Str ''dark'' then ''#18181b'' else ''#ffffff'')]
      | None \<Rightarrow> []) @
     (if window_defined w \<and> \<not> storage_set_throws w
      then [StorageSetItem ''theme'' (to_string t)]
      else [ConsoleWarn ''Failed to save theme preference:'']) @
     (case announcerRef w of Some old \<Rightarrow> [BodyRemoveChild old] | None \<Rightarrow> []) @
     [BodyAppendChild (next_id w)
        \<lparr>aria_live = ''polite'', aria_atomic = ''true'', className = ''sr-only'',
         textContent = ''Theme changed to '' @ to_string t @ '' mode''\<rparr>,
      SetTimeout (RemoveAnnouncer (next_id w)) 1000] \<and>
   timers (snd (setTheme t w)) =
     timers w @ [(RemoveTransition, 200), (RemoveAnnouncer (next_id w), 1000)] \<and>
   next_id w \<in> fst ` set (body_children (snd (setTheme t w))) \<and>
   next_id w \<notin> fst ` set (body_children (run_timer (RemoveAnnouncer (next_id w)) (snd (setTheme t w))))"
proof -
  assume r: "reachable w" and v: "valid_theme t"
  from r have d: "document_defined w" and a: "ref_attached w"
    using reachable_consistent [of w] by (simp_all add: consistent_def)
  have "document_defined (snd (setTheme t w))"
    using d by simp
  then have "next_id w \<notin> fst ` set (body_children (run_timer (RemoveAnnouncer (next_id w)) (snd (setTheme t w))))"
    by (rule announcer_removed_by_timer)
  then show ?thesis
    using setTheme_effects [OF d a v]
    by (simp add: effects_since_def THEME_CONFIG_def del: run_timer.simps)
qed

theorem setTheme_effect_order_witness:
  "reachable (snd (mount fresh_browser)) \<and> valid_theme (Str ''dark'') \<and>
   effects_since (snd (mount fresh_browser)) (snd (setTheme (Str ''dark'') (snd (mount fresh_browser)))) =
     [SetThemeState (Str ''dark''),
      StyleSetProperty ''--theme-transition'' ''background-color 0.2s ease-in-out'',
      ClassListAdd ''dark'',
      SetTimeout RemoveTransition 200,
      MetaSetAttribute ''content'' ''#18181b'',
      StorageSetItem ''theme'' ''dark'',
      BodyAppendChild 0
        \<lparr>aria_live = ''polite'', aria_atomic = ''true'', className = ''sr-only'',
         textContent = ''Theme changed to dark mode''\<rparr>,
      SetTimeout (RemoveAnnouncer 0) 1000]"
proof -
  let ?w = "snd (mount fresh_browser)"
  have r: "reachable ?w"
    by (rule reachable_after_mount) (rule fresh_browser_mounts)+
  have v: "valid_theme (Str ''dark'')"
    by (simp add: valid_theme_def)
  have f: "meta_theme_color ?w = Some ''#ffffff''" "window_defined ?w" "\<not> storage_set_throws ?w"
    "announcerRef ?w = None" "next_id ?w = 0"
    by code_simp+
  have "effects_since ?w (snd (setTheme (Str ''dark'') ?w)) =
     [SetThemeState (Str ''dark''),
      StyleSetProperty ''--theme-transition'' ''background-color 0.2s ease-in-out'',
      ClassListAdd ''dark'',
      SetTimeout RemoveTransition 200,
      MetaSetAttribute ''content'' ''#18181b'',
      StorageSetItem ''theme'' ''dark'',
      BodyAppendChild 0
        \<lparr>aria_live = ''polite'', aria_atomic = ''true'', className = ''sr-only'',
         textContent = ''Theme changed to dark mode''\<rparr>,
      SetTimeout (RemoveAnnouncer 0) 1000]"
    using setTheme_effect_order [OF r v] f by simp
  with r v show ?thesis
    by (intro conjI)
qed

text \<open>
  C9. The teardown of a mounted instance removes every listener the instance has
  registered, leaves no cleanup behind and detaches the announcer the ref points to. After
  it an event of any kind reaches no handler and changes nothing; in particular a change of
  the system preference, a write by another browsing context and a key press leave the
  effective theme as it was.
\<close>

theorem teardown_removes_all_listeners:
  "reachable w \<Longrightarrow>
   listeners (unmount w) = [] \<and>
   cleanup_system (unmount w) = None \<and> cleanup_keyboard (unmount w) = None \<and>
   cleanup_announcer (unmount w) = None \<and>
   set_option (announcerRef (unmount w)) \<inter> fst ` set (body_children (unmount w)) = {} \<and>
   theme (unmount w) = theme w \<and>
   (\<forall>ev. dispatch ev (unmount w) = unmount w) \<and>
   theme (step (SystemPreferenceChanges m) (unmount w)) = theme w \<and>
   theme (step (OtherContextWrites k v) (unmount w)) = theme w \<and>
   theme (step (KeyPressed e) (unmount w)) = theme w"
proof -
  assume "reachable w"
  then have c: "consistent w"
    by (rule reachable_consistent)
  note u = unmount_consistent [OF c]
  have l: "listeners (unmount w) = []"
    by (rule u)
  have d: "dispatch ev x = x" if "listeners x = []" for ev x
    using that by (rule dispatch_no_listeners)
  have "theme (step (SystemPreferenceChanges m) (unmount w)) = theme w"
    using l u(5) by (simp add: step_def d)
  moreover have "theme (step (OtherContextWrites k v) (unmount w)) = theme w"
    using l u(5) by (simp add: step_def d)
  moreover have "theme (step (KeyPressed e) (unmount w)) = theme w"
    using l u(5) by (simp add: step_def d)
  ultimately show ?thesis
    using u l by (simp add: d)
qed

theorem teardown_removes_all_listeners_witness:
  "reachable (step (CallSetTheme (Str ''dark'')) (snd (mount fresh_browser))) \<and>
   listeners (step (CallSetTheme (Str ''dark'')) (snd (mount fresh_browser))) =
     [(MediaQueryList, ''change'', HandleChange), (Document, ''keydown'', HandleKeyDown (Str ''dark''))] \<and>
   listeners (unmount (step (CallSetTheme (Str ''dark'')) (snd (mount fresh_browser)))) = [] \<and>
   theme (step (SystemPreferenceChanges False)
           (unmount (step (CallSetTheme (Str ''dark'')) (snd (mount fresh_browser))))) = Str ''dark'' \<and>
   theme (step (KeyPressed \<lparr>ctrlKey = True, metaKey = False, shiftKey = True, key = ''T''\<rparr>)
           (unmount (step (CallSetTheme (Str ''dark'')) (snd (mount fresh_browser))))) = Str ''dark''"
proof -
  let ?w = "step (CallSetTheme (Str ''dark'')) (snd (mount fresh_browser))"
  have r: "reachable ?w"
    by (rule reachable_step, rule reachable_after_mount) (rule fresh_browser_mounts)+
  have t: "theme ?w = Str ''dark''"
    by code_simp
  have l: "listeners ?w =
     [(MediaQueryList, ''change'', HandleChange), (Document, ''keydown'', HandleKeyDown (Str ''dark''))]"
    by code_simp
  note c = teardown_removes_all_listeners [OF r]
  from c have 1: "listeners (unmount ?w) = []" by blast
  from c [of False] have "theme (step (SystemPreferenceChanges False) (unmount ?w)) = theme ?w"
    by blast
  with t have 2: "theme (step (SystemPreferenceChanges False) (unmount ?w)) = Str ''dark''"
    by (simp only:)
  from c [of _ _ _ "\<lparr>ctrlKey = True, metaKey = False, shiftKey = True, key = ''T''\<rparr>"]
  have "theme (step (KeyPressed \<lparr>ctrlKey = True, metaKey = False, shiftKey = True, key = ''T''\<rparr>)
           (unmount ?w)) = theme ?w"
    by blast
  with t have 3: "theme (step (KeyPressed \<lparr>ctrlKey = True, metaKey = False, shiftKey = True, key = ''T''\<rparr>)
           (unmount ?w)) = Str ''dark''"
    by (simp only:)
  from r l 1 2 3 show ?thesis
    by (intro conjI)
qed

end
